theory Spec2Isabelle
  imports
    Complex_Main
    "HOL-Library.Word"
    "HOL-Library.Signed_Division"
    "HOL-Library.Char_ord"
    "HOL-Library.List_Lexorder"
begin

section \<open>Keys, key ranges and formatted keys\<close>

text \<open>
  Keys are byte strings compared lexicographically (the order of \<open>char list\<close> given by
  \<open>Char_ord\<close> and \<open>List_Lexorder\<close>). A \<open>KeyRange\<close> is the half-open interval
  \<open>[range_begin, range_end)\<close>; the constructor keeps the name of the source's
  \<open>KeyRangeRef(begin, end)\<close>.
\<close>

type_synonym Key = string

datatype KeyRange = KeyRangeRef (range_begin: Key) (range_end: Key)

definition withSuffix :: "Key \<Rightarrow> string \<Rightarrow> Key" where
  "withSuffix k suffix = k @ suffix"

text \<open>
  Modelled from the spec: \<open>strinc\<close> (declared outside this file). The spec's data model says a
  registered range is single-key-wide, its end being its begin followed by a zero byte.
\<close>

definition strinc :: "Key \<Rightarrow> Key" where
  "strinc k = k @ [CHR 0x00]"

text \<open>The keys a range holds, and ranges that share no key.\<close>

definition keysOf :: "KeyRange \<Rightarrow> Key set" where
  "keysOf r = {k. range_begin r \<le> k \<and> k < range_end r}"

definition rangesOverlap :: "KeyRange \<Rightarrow> KeyRange \<Rightarrow> bool" where
  "rangesOverlap r1 r2 = (keysOf r1 \<inter> keysOf r2 \<noteq> {})"

text \<open>
  \<open>format("%08x", n)\<close> and \<open>format("%04x", i)\<close>: lower-case hexadecimal, padded with zeros
  on the left to the given minimal width (printf's contract). \<open>%x\<close> reads its argument as
  unsigned, so a 32-bit counter is printed through \<open>unat\<close>.
\<close>

definition hexDigit :: "nat \<Rightarrow> char" where
  "hexDigit d = ''0123456789abcdef'' ! d"

function toHex :: "nat \<Rightarrow> string" where
  "toHex n = (if n < 16 then [hexDigit n] else toHex (n div 16) @ [hexDigit (n mod 16)])"
  by pat_completeness auto
termination
  by (relation "measure (\<lambda>n. n)") auto

definition format_0x :: "nat \<Rightarrow> nat \<Rightarrow> string" where
  "format_0x width n = replicate (width - length (toHex n)) (CHR ''0'') @ toHex n"

section \<open>Errors, outcomes and the environment\<close>

text \<open>
  A failed \<open>ASSERT\<close> throws \<open>internal_error\<close>; an operation of the database may throw any
  error of its own (\<open>db_error\<close>); what C++ leaves undefined (an index outside a vector, a
  division by zero, a signed overflow) is the error \<open>undefined_behaviour\<close>. An actor that is
  still looping when its fuel is spent is \<open>Pending\<close>.
\<close>

datatype Error = internal_error | undefined_behaviour | db_error int

datatype 'a outcome = Returned 'a | Thrown Error | Pending

text \<open>
  The calls an actor can suspend on, and what each returned. The versions, tenants and limits
  are the arguments the source passes.
\<close>

datatype call =
    BlobbifyRange KeyRange
  | UnblobbifyRange KeyRange
  | PurgeBlobGranules KeyRange int "string option" bool
  | WaitPurgeGranulesComplete Key
  | VerifyBlobRange KeyRange "int option"
  | ListBlobbifiedRanges KeyRange int
  | GetBlobGranuleRanges KeyRange int
  | OnError Error
  | ChangeConfig string bool
  | Delay real
  | WaitNextOp

datatype reply =
    RBool bool
  | RKey Key
  | RVersion int
  | RRanges "KeyRange list"
  | RVoid
  | RError Error

text \<open>
  One suspension point: the call, its reply, and the oracle's \<open>activeRanges\<close> as any other
  actor of the same client would read it while this one is suspended.
\<close>

datatype event = Event (ev_call: call) (ev_reply: reply) (ev_active: "KeyRange list")

text \<open>
  The environment: the database handle \<open>cx\<close> and the global \<open>deterministicRandom()\<close>, over an
  abstract state \<open>'x\<close> of the simulated cluster. Every operation is an arbitrary function of
  that state, so whatever other actors do between two calls is covered. None of these
  operations is defined in this file; they are parameters of the model. \<open>random01\<close> returns
  the value of a double; \<open>randomUniqueID\<close> returns the identifier already printed by
  \<open>toString()\<close>.
\<close>

record 'x Env =
  blobbifyRange :: "KeyRange \<Rightarrow> 'x \<Rightarrow> (Error + bool) \<times> 'x"
  unblobbifyRange :: "KeyRange \<Rightarrow> 'x \<Rightarrow> (Error + bool) \<times> 'x"
  purgeBlobGranules :: "KeyRange \<Rightarrow> int \<Rightarrow> string option \<Rightarrow> bool \<Rightarrow> 'x \<Rightarrow> (Error + Key) \<times> 'x"
  waitPurgeGranulesComplete :: "Key \<Rightarrow> 'x \<Rightarrow> (Error + unit) \<times> 'x"
  verifyBlobRange :: "KeyRange \<Rightarrow> int option \<Rightarrow> 'x \<Rightarrow> (Error + int) \<times> 'x"
  listBlobbifiedRanges :: "KeyRange \<Rightarrow> int \<Rightarrow> 'x \<Rightarrow> (Error + KeyRange list) \<times> 'x"
  getBlobGranuleRanges :: "KeyRange \<Rightarrow> int \<Rightarrow> 'x \<Rightarrow> (Error + KeyRange list) \<times> 'x"
  onError :: "Error \<Rightarrow> 'x \<Rightarrow> (Error + unit) \<times> 'x"
  changeConfig :: "string \<Rightarrow> bool \<Rightarrow> 'x \<Rightarrow> (Error + unit) \<times> 'x"
  randomInt :: "int \<Rightarrow> int \<Rightarrow> 'x \<Rightarrow> int \<times> 'x"
  randomExp :: "int \<Rightarrow> int \<Rightarrow> 'x \<Rightarrow> int \<times> 'x"
  random01 :: "'x \<Rightarrow> real \<times> 'x"
  coinflip :: "'x \<Rightarrow> bool \<times> 'x"
  randomUniqueID :: "'x \<Rightarrow> string \<times> 'x"

text \<open>Modelled from the spec: \<open>invalidVersion\<close>, the sentinel of \<open>verifyBlobRange\<close>.\<close>

definition invalidVersion :: int where
  "invalidVersion = - 1"

section \<open>The workload and its constructor\<close>

text \<open>
  The fields of \<open>struct BlobGranuleRangesWorkload\<close> (with \<open>clientId\<close> and \<open>clientCount\<close> of
  its base class), the state \<open>sim\<close> of the environment, and the \<open>history\<close> of suspension
  points. \<open>nextKey\<close> is the source's \<open>int32_t\<close>: a 32-bit word, read as the signed integer
  \<open>sint\<close> of it.
\<close>

record 'x BlobGranuleRangesWorkload =
  clientId :: int
  clientCount :: int
  testDuration :: real
  operationsPerSecond :: int
  targetRanges :: int
  sequential :: bool
  sequentialGap :: int
  stopUnitClient :: bool
  nextKey :: "32 word"
  inactiveRanges :: "KeyRange list"
  activeRanges :: "KeyRange list"
  sim :: 'x
  history :: "event list"

record WorkloadContext =
  wcx_clientId :: int
  wcx_clientCount :: int
  sharedRandomNumber :: "64 word"

record TestOptions =
  opt_testDuration :: "real option"
  opt_opsPerSecond :: "int option"

definition getOption :: "'a option \<Rightarrow> 'a \<Rightarrow> 'a" where
  "getOption opt dflt = (case opt of Some v \<Rightarrow> v | None \<Rightarrow> dflt)"

text \<open>The conversion of a double to \<open>int\<close>: C++ drops the fraction (towards zero).\<close>

definition doubleToInt :: "real \<Rightarrow> int" where
  "doubleToInt d = (if 0 \<le> d then \<lfloor>d\<rfloor> else \<lceil>d\<rceil>)"

text \<open>
  What C++ leaves undefined in integer arithmetic: a result of an \<open>int\<close> operation outside
  the 32-bit signed range, and the conversion of a double whose integral part is outside it.
\<close>

definition intOverflows :: "int \<Rightarrow> bool" where
  "intOverflows n = (n < - 2147483648 \<or> 2147483647 < n)"

definition doubleFitsInt :: "real \<Rightarrow> bool" where
  "doubleFitsInt d = (- 2147483649 < d \<and> d < 2147483648)"

text \<open>
  The arithmetic of \<open>double\<close>. A double is read as the real number it denotes, and an
  operation on doubles is the exact operation followed by the rounding of IEEE 754 binary64
  in its default mode: to the nearest representable number, a tie going to the even
  significand. \<open>binary64 x\<close> is that rounding: the significand has 53 bits, so in the binade
  \<open>[2^k, 2^(k+1))\<close> the representable numbers are the multiples of \<open>2^(k - 52)\<close>; below
  \<open>2^(-1022)\<close> (the subnormal numbers) the step stays \<open>2^(-1074)\<close>. The overflow to infinity
  is left out: a product that large does not fit an \<open>int\<close>, and the constructor is then
  undefined either way. A literal such as \<open>0.8\<close> is the rounding of the decimal it writes; an
  \<open>int\<close> is converted by rounding too (exactly, since it has at most 31 significant bits).
\<close>

definition pow2 :: "int \<Rightarrow> real" where
  "pow2 k = (if 0 \<le> k then 2 ^ nat k else 1 / 2 ^ nat (- k))"

definition roundTiesEven :: "real \<Rightarrow> int" where
  "roundTiesEven x =
     (let f = \<lfloor>x\<rfloor>
      in if x - of_int f < 1 / 2 then f
         else if 1 / 2 < x - of_int f then f + 1
         else if even f then f else f + 1)"

definition binary64 :: "real \<Rightarrow> real" where
  "binary64 x =
     (if x = 0 then 0
      else let q = max \<lfloor>log 2 \<bar>x\<bar>\<rfloor> (- 1022) - 52
           in of_int (roundTiesEven (x / pow2 q)) * pow2 q)"

definition doubleAdd :: "real \<Rightarrow> real \<Rightarrow> real" where
  "doubleAdd x y = binary64 (x + y)"

definition doubleMul :: "real \<Rightarrow> real \<Rightarrow> real" where
  "doubleMul x y = binary64 (x * y)"

definition intToDouble :: "int \<Rightarrow> real" where
  "intToDouble n = binary64 (real_of_int n)"

text \<open>
  Line 71, \<open>targetRanges *= (0.8 + (random01() * 0.4))\<close>, before the result is converted
  back to \<open>int\<close>: the double \<open>(double)targetRanges * (0.8 + u * 0.4)\<close>, for the value \<open>e\<close> that
  \<open>randomExp\<close> returned and the value \<open>u\<close> that \<open>random01\<close> returned.
\<close>

definition scaledRanges :: "int \<Rightarrow> real \<Rightarrow> real" where
  "scaledRanges e u =
     doubleMul (intToDouble e) (doubleAdd (binary64 0.8) (doubleMul u (binary64 0.4)))"

text \<open>
  Lines 70 to 75 of the constructor, given what \<open>randomExp\<close> and \<open>random01\<close> returned: the
  double of line 71 is converted to \<open>int\<close>, and \<open>/=\<close> on \<open>int\<close> is C++'s truncating division.
\<close>

definition deriveTargetRanges :: "int \<Rightarrow> real \<Rightarrow> int \<Rightarrow> int" where
  "deriveTargetRanges e u count =
     (let t2 = doubleToInt (scaledRanges e u);
          t3 = t2 sdiv count
      in if t3 \<le> 0 then 1 else t3)"

text \<open>
  Lines 76 to 82: the seed, after the division by 10, gives \<open>sequential\<close> and
  \<open>sequentialGap\<close>. \<open>rand\<close> is an \<open>int64_t\<close>; \<open>/\<close> and \<open>%\<close> truncate towards zero.
\<close>

definition deriveSequential :: "int \<Rightarrow> bool" where
  "deriveSequential rand = ((rand sdiv 10) smod 2 \<noteq> 0)"

definition deriveSequentialGap :: "int \<Rightarrow> int" where
  "deriveSequentialGap rand = 1 + ((rand sdiv 10) sdiv 2) smod 2"

text \<open>
  The constructor. It has no defined result when \<open>clientCount\<close> is 0 (two divisions by it),
  when a quotient or the product \<open>10000000 * clientId\<close> leaves the range of \<open>int\<close>, or when
  the double of line 71 does not fit an \<open>int\<close>.
\<close>

definition newWorkload ::
  "'x Env \<Rightarrow> WorkloadContext \<Rightarrow> TestOptions \<Rightarrow> 'x \<Rightarrow> Error + 'x BlobGranuleRangesWorkload" where
  "newWorkload cx wcx options x0 =
     (let (dfltOps, x1) = randomInt cx 1 100 x0;
          rand = sint (sharedRandomNumber wcx);
          (e, x2) = randomExp cx 1 (1 + rand smod 10) x1;
          (u, x3) = random01 cx x2;
          count = wcx_clientCount wcx;
          ops = getOption (opt_opsPerSecond options) dfltOps sdiv count
      in if count = 0 then Inl undefined_behaviour
         else if intOverflows ops then Inl undefined_behaviour
         else if doubleFitsInt (scaledRanges e u) then
           (if intOverflows (doubleToInt (scaledRanges e u) sdiv count)
            then Inl undefined_behaviour
            else if intOverflows (10000000 * wcx_clientId wcx) then Inl undefined_behaviour
            else Inr \<lparr> clientId = wcx_clientId wcx,
                       clientCount = count,
                       testDuration = getOption (opt_testDuration options) 30,
                       operationsPerSecond = (if ops \<le> 0 then 1 else ops),
                       targetRanges = deriveTargetRanges e u count,
                       sequential = deriveSequential rand,
                       sequentialGap = deriveSequentialGap rand,
                       stopUnitClient = False,
                       nextKey = word_of_int (10000000 * wcx_clientId wcx),
                       inactiveRanges = [],
                       activeRanges = [],
                       sim = x3,
                       history = [] \<rparr>)
         else Inl undefined_behaviour)"

section \<open>Actors\<close>

text \<open>
  An actor runs on the workload's state and ends with an outcome. \<open>bindA\<close> is sequencing
  (\<open>wait\<close>): an error or a spent fuel ends the actor there.
\<close>

type_synonym ('x, 'a) actor =
  "'x BlobGranuleRangesWorkload \<Rightarrow> 'a outcome \<times> 'x BlobGranuleRangesWorkload"

definition returnA :: "'a \<Rightarrow> ('x, 'a) actor" where
  "returnA a s = (Returned a, s)"

definition throwA :: "Error \<Rightarrow> ('x, 'a) actor" where
  "throwA e s = (Thrown e, s)"

definition pendingA :: "('x, 'a) actor" where
  "pendingA s = (Pending, s)"

definition bindA :: "('x, 'a) actor \<Rightarrow> ('a \<Rightarrow> ('x, 'b) actor) \<Rightarrow> ('x, 'b) actor" where
  "bindA m f s =
     (case m s of
        (Returned a, s') \<Rightarrow> f a s'
      | (Thrown e, s') \<Rightarrow> (Thrown e, s')
      | (Pending, s') \<Rightarrow> (Pending, s'))"

fun seqA :: "('x, unit) actor list \<Rightarrow> ('x, unit) actor" where
  "seqA [] = returnA ()"
| "seqA (m # ms) = bindA m (\<lambda>_. seqA ms)"

definition ASSERT :: "bool \<Rightarrow> ('x, unit) actor" where
  "ASSERT b = (if b then returnA () else throwA internal_error)"

text \<open>A call of the database: the state of the environment moves and the suspension is recorded.\<close>

definition dbCall ::
  "call \<Rightarrow> ('a \<Rightarrow> reply) \<Rightarrow> ('x \<Rightarrow> (Error + 'a) \<times> 'x) \<Rightarrow> ('x, 'a) actor" where
  "dbCall c rep f s =
     (case f (sim s) of
        (Inl e, x') \<Rightarrow>
          (Thrown e, s\<lparr>sim := x', history := history s @ [Event c (RError e) (activeRanges s)]\<rparr>)
      | (Inr a, x') \<Rightarrow>
          (Returned a, s\<lparr>sim := x', history := history s @ [Event c (rep a) (activeRanges s)]\<rparr>))"

text \<open>A timer (\<open>delay\<close>, the Poisson tick): a suspension with nothing to return.\<close>

definition timerA :: "call \<Rightarrow> ('x, unit) actor" where
  "timerA c s = (Returned (), s\<lparr>history := history s @ [Event c RVoid (activeRanges s)]\<rparr>)"

text \<open>A draw from \<open>deterministicRandom()\<close>: no suspension.\<close>

definition randomA :: "('x \<Rightarrow> 'a \<times> 'x) \<Rightarrow> ('x, 'a) actor" where
  "randomA f s = (case f (sim s) of (a, x') \<Rightarrow> (Returned a, s\<lparr>sim := x'\<rparr>))"

text \<open>
  \<open>loop { try { body; break; } catch (Error& e) { wait(tr.onError(e)); } }\<close>: an error of the
  body (a failed \<open>ASSERT\<close> included) goes to \<open>onError\<close>, which rethrows it or lets the loop
  try again.
\<close>

fun retryLoop :: "nat \<Rightarrow> 'x Env \<Rightarrow> ('x, 'a) actor \<Rightarrow> ('x, 'a) actor" where
  "retryLoop 0 cx body = pendingA"
| "retryLoop (Suc n) cx body = (\<lambda>s.
     case body s of
       (Thrown e, s') \<Rightarrow> bindA (dbCall (OnError e) (\<lambda>_. RVoid) (onError cx e)) (\<lambda>_. retryLoop n cx body) s'
     | other \<Rightarrow> other)"

definition getsA :: "('x BlobGranuleRangesWorkload \<Rightarrow> 'a) \<Rightarrow> ('x, 'a) actor" where
  "getsA f s = (Returned (f s), s)"

definition modifyA ::
  "('x BlobGranuleRangesWorkload \<Rightarrow> 'x BlobGranuleRangesWorkload) \<Rightarrow> ('x, unit) actor" where
  "modifyA f s = (Returned (), f s)"

text \<open>\<open>v[i]\<close> on a vector: outside the vector the behaviour is undefined.\<close>

definition atA :: "'a list \<Rightarrow> int \<Rightarrow> ('x, 'a) actor" where
  "atA xs i = (if 0 \<le> i \<and> i < int (length xs) then returnA (xs ! nat i) else throwA undefined_behaviour)"

text \<open>
  Modelled from the spec: \<open>swapAndPop\<close> (declared outside this file), the removal of one
  element in constant time without keeping the order: the last element takes the place of
  the removed one.
\<close>

definition swapAndPop :: "'a list \<Rightarrow> nat \<Rightarrow> 'a list" where
  "swapAndPop xs i = butlast (xs[i := last xs])"

section \<open>The key generator and the range operations\<close>

text \<open>
  \<open>newKey\<close>. In sequential mode \<open>nextKey += sequentialGap\<close> is an addition of two \<open>int\<close>s: a
  sum outside the signed 32-bit range is undefined, and \<open>%08x\<close> prints the new counter as an
  unsigned number.
\<close>

definition newKey :: "'x Env \<Rightarrow> ('x, string) actor" where
  "newKey cx s =
     (if sequential s then
        (let n = sint (nextKey s) + sequentialGap s
         in if intOverflows n then (Thrown undefined_behaviour, s)
            else (Returned (format_0x 8 (unat (word_of_int n :: 32 word))),
                  s\<lparr>nextKey := word_of_int n\<rparr>))
      else randomA (randomUniqueID cx) s)"

definition blobbifyRangeA :: "'x Env \<Rightarrow> KeyRange \<Rightarrow> ('x, bool) actor" where
  "blobbifyRangeA cx krange = dbCall (BlobbifyRange krange) RBool (blobbifyRange cx krange)"

definition unblobbifyRangeA :: "'x Env \<Rightarrow> KeyRange \<Rightarrow> ('x, bool) actor" where
  "unblobbifyRangeA cx krange = dbCall (UnblobbifyRange krange) RBool (unblobbifyRange cx krange)"

definition purgeBlobGranulesA ::
  "'x Env \<Rightarrow> KeyRange \<Rightarrow> int \<Rightarrow> string option \<Rightarrow> bool \<Rightarrow> ('x, Key) actor" where
  "purgeBlobGranulesA cx krange version tenant force =
     dbCall (PurgeBlobGranules krange version tenant force) RKey
       (purgeBlobGranules cx krange version tenant force)"

definition waitPurgeGranulesCompleteA :: "'x Env \<Rightarrow> Key \<Rightarrow> ('x, unit) actor" where
  "waitPurgeGranulesCompleteA cx purgeKey =
     dbCall (WaitPurgeGranulesComplete purgeKey) (\<lambda>_. RVoid) (waitPurgeGranulesComplete cx purgeKey)"

definition listBlobbifiedRangesA :: "'x Env \<Rightarrow> KeyRange \<Rightarrow> int \<Rightarrow> ('x, KeyRange list) actor" where
  "listBlobbifiedRangesA cx krange limit =
     dbCall (ListBlobbifiedRanges krange limit) RRanges (listBlobbifiedRanges cx krange limit)"

definition getBlobGranuleRangesA :: "'x Env \<Rightarrow> KeyRange \<Rightarrow> int \<Rightarrow> ('x, KeyRange list) actor" where
  "getBlobGranuleRangesA cx krange limit =
     dbCall (GetBlobGranuleRanges krange limit) RRanges (getBlobGranuleRanges cx krange limit)"

definition setRange :: "'x Env \<Rightarrow> KeyRange \<Rightarrow> bool \<Rightarrow> ('x, bool) actor" where
  "setRange cx krange active =
     (if active then blobbifyRangeA cx krange else unblobbifyRangeA cx krange)"

definition registerNewRange :: "'x Env \<Rightarrow> ('x, unit) actor" where
  "registerNewRange cx =
     bindA (newKey cx) (\<lambda>k.
       let nextRangeKey = ''R_'' @ k;
           krange = KeyRangeRef nextRangeKey (strinc nextRangeKey)
       in bindA (setRange cx krange True) (\<lambda>success.
          bindA (ASSERT success) (\<lambda>_.
          modifyA (\<lambda>s. s\<lparr>activeRanges := activeRanges s @ [krange]\<rparr>))))"

definition unregisterRandomRange :: "'x Env \<Rightarrow> ('x, unit) actor" where
  "unregisterRandomRange cx =
     bindA (getsA activeRanges) (\<lambda>act.
     bindA (randomA (randomInt cx 0 (int (length act)))) (\<lambda>randomRangeIdx.
     bindA (atA act randomRangeIdx) (\<lambda>krange.
     bindA (modifyA (\<lambda>s. s\<lparr>activeRanges := swapAndPop (activeRanges s) (nat randomRangeIdx)\<rparr>)) (\<lambda>_.
     bindA (randomA (coinflip cx)) (\<lambda>force.
     bindA (if force
            then bindA (purgeBlobGranulesA cx krange 1 None True) (waitPurgeGranulesCompleteA cx)
            else returnA ()) (\<lambda>_.
     bindA (setRange cx krange False) (\<lambda>success.
     bindA (ASSERT success) (\<lambda>_.
     modifyA (\<lambda>s. s\<lparr>inactiveRanges := inactiveRanges s @ [krange]\<rparr>)))))))))"

fun repeatA :: "nat \<Rightarrow> ('x, unit) actor \<Rightarrow> ('x, unit) actor" where
  "repeatA 0 m = returnA ()"
| "repeatA (Suc n) m = bindA m (\<lambda>_. repeatA n m)"

text \<open>
  \<open>_setup\<close>: the configuration change, then \<open>targetRanges\<close> registrations one after the other
  (\<open>targetRanges\<close> is assigned in the constructor only, so the bound of the loop is read once).
\<close>

definition setup_actor :: "'x Env \<Rightarrow> ('x, unit) actor" where
  "setup_actor cx =
     bindA (dbCall (ChangeConfig ''blob_granules_enabled=1'' True) (\<lambda>_. RVoid)
             (changeConfig cx ''blob_granules_enabled=1'' True)) (\<lambda>_.
     bindA (getsA targetRanges) (\<lambda>n. repeatA (nat n) (registerNewRange cx)))"

text \<open>
  \<open>blobGranuleRangesClient\<close>: the driver's endless loop, run for \<open>n\<close> rounds. The coin is
  flipped only when \<open>activeRanges\<close> is not empty.
\<close>

fun blobGranuleRangesClient :: "nat \<Rightarrow> 'x Env \<Rightarrow> ('x, unit) actor" where
  "blobGranuleRangesClient 0 cx = pendingA"
| "blobGranuleRangesClient (Suc n) cx =
     bindA (getsA activeRanges) (\<lambda>act.
     bindA (if act = [] then returnA True else randomA (coinflip cx)) (\<lambda>reg.
     bindA (if reg then registerNewRange cx else unregisterRandomRange cx) (\<lambda>_.
     bindA (timerA WaitNextOp) (\<lambda>_.
     blobGranuleRangesClient n cx))))"

section \<open>The checker\<close>

definition isRangeActive :: "'x Env \<Rightarrow> KeyRange \<Rightarrow> ('x, bool) actor" where
  "isRangeActive cx krange =
     bindA (dbCall (VerifyBlobRange krange None) RVersion (verifyBlobRange cx krange None)) (\<lambda>v.
     returnA (v \<noteq> invalidVersion))"

fun pollRange :: "nat \<Rightarrow> 'x Env \<Rightarrow> KeyRange \<Rightarrow> bool \<Rightarrow> ('x, unit) actor" where
  "pollRange 0 cx krange isActive = pendingA"
| "pollRange (Suc n) cx krange isActive =
     bindA (isRangeActive cx krange) (\<lambda>completed.
       if completed = isActive then returnA ()
       else bindA (timerA (Delay 1)) (\<lambda>_. pollRange n cx krange isActive))"

fun adjacent :: "KeyRange list \<Rightarrow> bool" where
  "adjacent (g # h # gs) = (range_end g = range_begin h \<and> adjacent (h # gs))"
| "adjacent gs = True"

definition checkGranules :: "KeyRange \<Rightarrow> bool \<Rightarrow> KeyRange list \<Rightarrow> ('x, unit) actor" where
  "checkGranules krange isActive granules =
     (if isActive then
        seqA [ASSERT (1 \<le> length granules),
              ASSERT (range_begin (hd granules) \<le> range_begin krange),
              ASSERT (range_end krange \<le> range_end (last granules)),
              ASSERT (adjacent granules)]
      else ASSERT (granules = []))"

definition checkRange :: "'x Env \<Rightarrow> nat \<Rightarrow> KeyRange \<Rightarrow> bool \<Rightarrow> ('x, unit) actor" where
  "checkRange cx n krange isActive =
     seqA [pollRange n cx krange isActive,
           bindA (listBlobbifiedRangesA cx krange 1000000) (\<lambda>blobRanges.
             if isActive then
               seqA [ASSERT (length blobRanges = 1),
                     ASSERT (range_begin (blobRanges ! 0) \<le> range_begin krange),
                     ASSERT (range_end krange \<le> range_end (blobRanges ! 0))]
             else ASSERT (blobRanges = [])),
           retryLoop n cx
             (bindA (getBlobGranuleRangesA cx krange 1000000) (checkGranules krange isActive))]"

text \<open>
  \<open>_check\<close>: the loop of lines 272 to 274 starts one \<open>checkRange\<close> per index of
  \<open>activeRanges\<close>; a started check is kept as its arguments. The loop over \<open>inactiveRanges\<close>
  is commented out in the source and so is absent here. \<open>waitForAll\<close> is modelled by one of
  its schedules, the checks one after the other.
\<close>

function startChecks :: "nat \<Rightarrow> KeyRange list \<Rightarrow> (KeyRange \<times> bool) list \<Rightarrow> (KeyRange \<times> bool) list" where
  "startChecks i act checks =
     (if i < length act then startChecks (i + 1) act (checks @ [(act ! i, True)]) else checks)"
  by pat_completeness auto
termination
  by (relation "measure (\<lambda>(i, act, checks). length act - i)") auto

definition waitForAll :: "('x, unit) actor list \<Rightarrow> ('x, unit) actor" where
  "waitForAll futures = seqA futures"

definition check_actor :: "'x Env \<Rightarrow> nat \<Rightarrow> ('x, bool) actor" where
  "check_actor cx n =
     bindA (getsA activeRanges) (\<lambda>act.
     bindA (waitForAll (map (\<lambda>(krange, isActive). checkRange cx n krange isActive)
                          (startChecks 0 act []))) (\<lambda>_.
     returnA True))"

section \<open>The unit scenarios\<close>

definition tearDownRangeAfterUnit :: "'x Env \<Rightarrow> KeyRange \<Rightarrow> ('x, unit) actor" where
  "tearDownRangeAfterUnit cx krange =
     bindA (purgeBlobGranulesA cx krange 1 None True) (\<lambda>purgeKey.
     bindA (waitPurgeGranulesCompleteA cx purgeKey) (\<lambda>_.
     bindA (setRange cx krange False) ASSERT))"

definition verifyRangeUnit :: "'x Env \<Rightarrow> nat \<Rightarrow> KeyRange \<Rightarrow> ('x, unit) actor" where
  "verifyRangeUnit cx n krange =
     (let activeRange = KeyRangeRef (withSuffix (range_begin krange) ''A'')
                                    (withSuffix (range_begin krange) ''B'');
          middleKey = withSuffix (range_begin krange) ''AF''
      in seqA
        [bindA (setRange cx activeRange True) ASSERT,
         checkRange cx n activeRange True,
         bindA (isRangeActive cx (KeyRangeRef (range_begin activeRange) middleKey)) ASSERT,
         bindA (isRangeActive cx (KeyRangeRef middleKey (range_end activeRange))) ASSERT,
         bindA (isRangeActive cx krange) (\<lambda>fail1. ASSERT (\<not> fail1)),
         bindA (isRangeActive cx (KeyRangeRef (range_begin krange) (range_begin activeRange)))
           (\<lambda>fail2. ASSERT (\<not> fail2)),
         bindA (isRangeActive cx (KeyRangeRef (range_end activeRange) (range_end krange)))
           (\<lambda>fail3. ASSERT (\<not> fail3)),
         bindA (isRangeActive cx (KeyRangeRef (range_begin krange) middleKey))
           (\<lambda>fail4. ASSERT (\<not> fail4)),
         bindA (isRangeActive cx (KeyRangeRef middleKey (range_end krange)))
           (\<lambda>fail5. ASSERT (\<not> fail5)),
         bindA (isRangeActive cx (KeyRangeRef (range_begin krange) (range_end activeRange)))
           (\<lambda>fail6. ASSERT (\<not> fail6)),
         bindA (isRangeActive cx (KeyRangeRef (range_begin activeRange) (range_end krange)))
           (\<lambda>fail7. ASSERT (\<not> fail7)),
         tearDownRangeAfterUnit cx activeRange])"

text \<open>
  \<open>verifyRangeGapUnit\<close>. The boundaries are pushed by the loop of lines 369 to 372, between
  the begin and the end of the range.
\<close>

function pushBoundaries :: "Key \<Rightarrow> int \<Rightarrow> int \<Rightarrow> Key list \<Rightarrow> Key list" where
  "pushBoundaries b rangeCount i boundaries =
     (if i < rangeCount - 1
      then pushBoundaries b rangeCount (i + 1) (boundaries @ [withSuffix b (format_0x 4 (nat i))])
      else boundaries)"
  by pat_completeness auto
termination
  by (relation "measure (\<lambda>(b, rangeCount, i, boundaries). nat (rangeCount - 1 - i))") auto

definition gapBoundaries :: "KeyRange \<Rightarrow> int \<Rightarrow> Key list" where
  "gapBoundaries krange rangeCount =
     pushBoundaries (range_begin krange) rangeCount 0 [range_begin krange] @ [range_end krange]"

function gapLoop ::
  "'x Env \<Rightarrow> nat \<Rightarrow> Key list \<Rightarrow> int \<Rightarrow> int \<Rightarrow> int \<Rightarrow> ('x, unit) actor" where
  "gapLoop cx n boundaries rangeToNotBlobbify rangeCount i =
     (if i < rangeCount then
        bindA (atA boundaries i) (\<lambda>b0.
        bindA (atA boundaries (i + 1)) (\<lambda>b1.
        bindA (if i \<noteq> rangeToNotBlobbify
               then seqA [bindA (setRange cx (KeyRangeRef b0 b1) True) ASSERT,
                          checkRange cx n (KeyRangeRef b0 b1) True]
               else checkRange cx n (KeyRangeRef b0 b1) False) (\<lambda>_.
        gapLoop cx n boundaries rangeToNotBlobbify rangeCount (i + 1))))
      else returnA ())"
  by pat_completeness auto
termination
  by (relation "measure (\<lambda>(cx, n, boundaries, g, rangeCount, i). nat (rangeCount - i))") auto

text \<open>
  The scenario after line 368, for the \<open>rangeCount\<close> drawn there (the split only gives the
  local variable a name).
\<close>

definition verifyRangeGapRest :: "'x Env \<Rightarrow> nat \<Rightarrow> KeyRange \<Rightarrow> int \<Rightarrow> ('x, unit) actor" where
  "verifyRangeGapRest cx n krange rangeCount =
     (let boundaries = gapBoundaries krange rangeCount
      in
     bindA (ASSERT (int (length boundaries) - 1 = rangeCount)) (\<lambda>_.
     bindA (randomA (randomInt cx 0 rangeCount)) (\<lambda>rangeToNotBlobbify.
     bindA (gapLoop cx n boundaries rangeToNotBlobbify rangeCount 0) (\<lambda>_.
     bindA (isRangeActive cx krange) (\<lambda>success.
     bindA (ASSERT (\<not> success)) (\<lambda>_.
     bindA (if rangeToNotBlobbify \<noteq> 0
            then bindA (atA boundaries 0) (\<lambda>b0.
                 bindA (atA boundaries rangeToNotBlobbify) (\<lambda>b1.
                 tearDownRangeAfterUnit cx (KeyRangeRef b0 b1)))
            else returnA ()) (\<lambda>_.
     if rangeToNotBlobbify \<noteq> rangeCount - 1
     then bindA (atA boundaries (rangeToNotBlobbify + 1)) (\<lambda>b.
          tearDownRangeAfterUnit cx (KeyRangeRef b (last boundaries)))
     else returnA ())))))))"

definition verifyRangeGapUnit :: "'x Env \<Rightarrow> nat \<Rightarrow> KeyRange \<Rightarrow> ('x, unit) actor" where
  "verifyRangeGapUnit cx n krange =
     bindA (randomA (randomExp cx 3 6)) (\<lambda>e. verifyRangeGapRest cx n krange (e + 1))"

definition rangesMisalignedUnit :: "'x Env \<Rightarrow> nat \<Rightarrow> KeyRange \<Rightarrow> ('x, unit) actor" where
  "rangesMisalignedUnit cx n krange =
     (let subRange = KeyRangeRef (withSuffix (range_begin krange) ''A'')
                                 (withSuffix (range_begin krange) ''B'')
      in seqA
        [bindA (setRange cx krange True) ASSERT,
         bindA (listBlobbifiedRangesA cx krange 1000000) (\<lambda>blobRanges.
           seqA [ASSERT (length blobRanges = 1), ASSERT (blobRanges ! 0 = krange)]),
         retryLoop n cx
           (bindA (getBlobGranuleRangesA cx krange 1000000) (\<lambda>granules.
              seqA [ASSERT (length granules = 1), ASSERT (granules ! 0 = krange)])),
         bindA (purgeBlobGranulesA cx subRange 1 None False) (waitPurgeGranulesCompleteA cx),
         bindA (isRangeActive cx subRange) ASSERT,
         bindA (isRangeActive cx krange) ASSERT,
         bindA (purgeBlobGranulesA cx subRange 1 None False) (waitPurgeGranulesCompleteA cx),
         bindA (isRangeActive cx subRange) (\<lambda>fail1. ASSERT (\<not> fail1)),
         bindA (isRangeActive cx krange) (\<lambda>fail2. ASSERT (\<not> fail2)),
         retryLoop n cx
           (bindA (getBlobGranuleRangesA cx krange 1000000) (\<lambda>granules2.
              ASSERT (granules2 = [])))])"

definition blobbifyIdempotentUnit :: "'x Env \<Rightarrow> nat \<Rightarrow> KeyRange \<Rightarrow> ('x, unit) actor" where
  "blobbifyIdempotentUnit cx n krange =
     (let activeRange = KeyRangeRef (withSuffix (range_begin krange) ''A'')
                                    (withSuffix (range_begin krange) ''B'');
          middleKey = withSuffix (range_begin krange) ''AF'';
          middleKey2 = withSuffix (range_begin krange) ''AG''
      in seqA
        [bindA (randomA (coinflip cx)) (\<lambda>flip.
           if flip then bindA (setRange cx activeRange False) ASSERT else returnA ()),
         bindA (setRange cx activeRange True) ASSERT,
         checkRange cx n activeRange True,
         bindA (setRange cx activeRange True) ASSERT,
         checkRange cx n activeRange True,
         bindA (setRange cx krange True) (\<lambda>fail1. ASSERT (\<not> fail1)),
         bindA (setRange cx (KeyRangeRef (range_begin krange) (range_end activeRange)) True)
           (\<lambda>fail2. ASSERT (\<not> fail2)),
         bindA (setRange cx (KeyRangeRef (range_begin activeRange) (range_end krange)) True)
           (\<lambda>fail3. ASSERT (\<not> fail3)),
         bindA (setRange cx (KeyRangeRef (range_begin krange) middleKey) True)
           (\<lambda>fail4. ASSERT (\<not> fail4)),
         bindA (setRange cx (KeyRangeRef middleKey (range_end krange)) True)
           (\<lambda>fail5. ASSERT (\<not> fail5)),
         bindA (setRange cx (KeyRangeRef (range_begin activeRange) middleKey) True)
           (\<lambda>fail6. ASSERT (\<not> fail6)),
         bindA (setRange cx (KeyRangeRef middleKey (range_end activeRange)) True)
           (\<lambda>fail7. ASSERT (\<not> fail7)),
         bindA (setRange cx (KeyRangeRef middleKey middleKey2) True)
           (\<lambda>fail8. ASSERT (\<not> fail8)),
         bindA (listBlobbifiedRangesA cx krange 1000000) (\<lambda>blobRanges.
           seqA [ASSERT (length blobRanges = 1), ASSERT (blobRanges ! 0 = activeRange)]),
         retryLoop n cx
           (bindA (getBlobGranuleRangesA cx krange 1000000) (\<lambda>granules.
              seqA [ASSERT (length granules = 1), ASSERT (granules ! 0 = activeRange)])),
         bindA (purgeBlobGranulesA cx krange 1 None True) (waitPurgeGranulesCompleteA cx),
         bindA (setRange cx krange False) (\<lambda>unblobbifyFail1. ASSERT (\<not> unblobbifyFail1)),
         bindA (setRange cx (KeyRangeRef (range_begin krange) (range_end activeRange)) False)
           (\<lambda>unblobbifyFail2. ASSERT (\<not> unblobbifyFail2)),
         bindA (setRange cx (KeyRangeRef (range_begin activeRange) (range_end krange)) False)
           (\<lambda>unblobbifyFail3. ASSERT (\<not> unblobbifyFail3)),
         bindA (setRange cx (KeyRangeRef (range_begin activeRange) middleKey) False)
           (\<lambda>unblobbifyFail4. ASSERT (\<not> unblobbifyFail4)),
         bindA (setRange cx (KeyRangeRef middleKey (range_end activeRange)) False)
           (\<lambda>unblobbifyFail5. ASSERT (\<not> unblobbifyFail5)),
         bindA (setRange cx (KeyRangeRef (range_begin activeRange) middleKey) False)
           (\<lambda>unblobbifyFail6. ASSERT (\<not> unblobbifyFail6)),
         bindA (setRange cx (KeyRangeRef middleKey (range_end activeRange)) False)
           (\<lambda>unblobbifyFail7. ASSERT (\<not> unblobbifyFail7)),
         bindA (setRange cx (KeyRangeRef middleKey middleKey2) False)
           (\<lambda>unblobbifyFail8. ASSERT (\<not> unblobbifyFail8)),
         bindA (setRange cx activeRange True) (\<lambda>unblobbifySuccess. ASSERT unblobbifySuccess),
         bindA (setRange cx activeRange True)
           (\<lambda>unblobbifySuccessAgain. ASSERT unblobbifySuccessAgain)])"

definition reBlobbifyUnit :: "'x Env \<Rightarrow> nat \<Rightarrow> KeyRange \<Rightarrow> ('x, unit) actor" where
  "reBlobbifyUnit cx n krange =
     seqA
       [bindA (setRange cx krange True) ASSERT,
        checkRange cx n krange True,
        bindA (purgeBlobGranulesA cx krange 1 None True) (waitPurgeGranulesCompleteA cx),
        checkRange cx n krange False,
        bindA (setRange cx krange False) ASSERT,
        checkRange cx n krange False,
        bindA (setRange cx krange True) ASSERT,
        checkRange cx n krange True,
        tearDownRangeAfterUnit cx krange]"

section \<open>The unit runner\<close>

text \<open>\<open>enum UnitTestTypes\<close>, with the values C++ gives its enumerators.\<close>

definition VERIFY_RANGE_UNIT :: int where "VERIFY_RANGE_UNIT = 0"
definition VERIFY_RANGE_GAP_UNIT :: int where "VERIFY_RANGE_GAP_UNIT = 1"
definition RANGES_MISALIGNED :: int where "RANGES_MISALIGNED = 2"
definition BLOBBIFY_IDEMPOTENT :: int where "BLOBBIFY_IDEMPOTENT = 3"
definition RE_BLOBBIFY :: int where "RE_BLOBBIFY = 4"
definition OP_COUNT :: int where "OP_COUNT = 5"

definition excludedTypes :: "int set" where
  "excludedTypes = insert RE_BLOBBIFY (insert RANGES_MISALIGNED (insert OP_COUNT {}))"

text \<open>
  The inner loop of lines 615 to 622: draw until the drawn scenario is not excluded; the
  \<open>ASSERT\<close> on \<open>loopTries\<close> bounds it.
\<close>

function selectOp :: "'x Env \<Rightarrow> int \<Rightarrow> ('x, int) actor" where
  "selectOp cx loopTries s =
     (case randomInt cx 0 OP_COUNT (sim s) of (op, x') \<Rightarrow>
        if op \<notin> excludedTypes then (Returned op, s\<lparr>sim := x'\<rparr>)
        else if 0 \<le> loopTries - 1 then selectOp cx (loopTries - 1) (s\<lparr>sim := x'\<rparr>)
        else (Thrown internal_error, s\<lparr>sim := x'\<rparr>))"
  by pat_completeness auto
termination
  by (relation "measure (\<lambda>(cx, loopTries, s). nat loopTries)") auto

definition dispatchUnit :: "'x Env \<Rightarrow> nat \<Rightarrow> int \<Rightarrow> KeyRange \<Rightarrow> ('x, unit) actor" where
  "dispatchUnit cx n op krange =
     (if op = VERIFY_RANGE_UNIT then verifyRangeUnit cx n krange
      else if op = VERIFY_RANGE_GAP_UNIT then verifyRangeGapUnit cx n krange
      else if op = RANGES_MISALIGNED then rangesMisalignedUnit cx n krange
      else if op = BLOBBIFY_IDEMPOTENT then blobbifyIdempotentUnit cx n krange
      else if op = RE_BLOBBIFY then reBlobbifyUnit cx n krange
      else ASSERT False)"

text \<open>
  \<open>blobGranuleRangesUnitTests\<close>, run for \<open>rounds\<close> rounds; \<open>n\<close> is the fuel of the loops
  inside a scenario.
\<close>

fun blobGranuleRangesUnitTests :: "nat \<Rightarrow> 'x Env \<Rightarrow> nat \<Rightarrow> ('x, unit) actor" where
  "blobGranuleRangesUnitTests 0 cx n = pendingA"
| "blobGranuleRangesUnitTests (Suc rounds) cx n =
     bindA (getsA stopUnitClient) (\<lambda>stop.
       if stop then returnA ()
       else
         bindA (newKey cx) (\<lambda>k.
         let nextRangeKey = ''U_'' @ k;
             krange = KeyRangeRef nextRangeKey (strinc nextRangeKey)
         in
         bindA (selectOp cx 1000) (\<lambda>op.
         bindA (dispatchUnit cx n op krange) (\<lambda>_.
         bindA (timerA (Delay 1)) (\<lambda>_.
         blobGranuleRangesUnitTests rounds cx n)))))"

section \<open>What the claims speak of\<close>

text \<open>
  The formula the specification gives for \<open>targetRanges\<close>, written from its words:
  \<open>max(1, round(exp_random \<times> uniform(0.8, 1.2) / clientCount))\<close>.
\<close>

definition targetRanges_spec :: "int \<Rightarrow> real \<Rightarrow> int \<Rightarrow> int" where
  "targetRanges_spec e u count =
     max 1 (round (real_of_int e * (0.8 + u * 0.4) / real_of_int count))"

text \<open>The keys that \<open>n\<close> successive calls of \<open>newKey\<close> return.\<close>

fun generatedKeys :: "'x Env \<Rightarrow> nat \<Rightarrow> 'x BlobGranuleRangesWorkload \<Rightarrow> string list" where
  "generatedKeys cx 0 s = []"
| "generatedKeys cx (Suc n) s =
     (case newKey cx s of
        (Returned k, s') \<Rightarrow> k # generatedKeys cx n s'
      | _ \<Rightarrow> [])"

text \<open>The range a consumer builds from a key: \<open>prefix + key\<close> up to its \<open>strinc\<close>.\<close>

definition keyRangeOf :: "string \<Rightarrow> string \<Rightarrow> KeyRange" where
  "keyRangeOf pre k = KeyRangeRef (pre @ k) (strinc (pre @ k))"

text \<open>
  \<open>emits P m\<close>: whatever the state, the actor \<open>m\<close> only appends to the history, and every
  suspension point it appends satisfies \<open>P\<close>.
\<close>

definition emits :: "(event \<Rightarrow> bool) \<Rightarrow> ('x, 'a) actor \<Rightarrow> bool" where
  "emits P m = (\<forall>s. \<exists>evs. history (snd (m s)) = history s @ evs \<and> list_all P evs)"

definition purgeArgsOk :: "event \<Rightarrow> bool" where
  "purgeArgsOk ev =
     (case ev_call ev of
        PurgeBlobGranules krange version tenant force \<Rightarrow> version = 1 \<and> tenant = None
      | _ \<Rightarrow> True)"

definition purgeNotForced :: "event \<Rightarrow> bool" where
  "purgeNotForced ev =
     (case ev_call ev of
        PurgeBlobGranules krange version tenant force \<Rightarrow> \<not> force
      | _ \<Rightarrow> True)"

definition isPurge :: "call \<Rightarrow> bool" where
  "isPurge c = (case c of PurgeBlobGranules krange version tenant force \<Rightarrow> True | _ \<Rightarrow> False)"

text \<open>The range a call of the database is about, if it is about one.\<close>

definition callRange :: "call \<Rightarrow> KeyRange option" where
  "callRange c =
     (case c of
        BlobbifyRange r \<Rightarrow> Some r
      | UnblobbifyRange r \<Rightarrow> Some r
      | PurgeBlobGranules r version tenant force \<Rightarrow> Some r
      | VerifyBlobRange r version \<Rightarrow> Some r
      | ListBlobbifiedRanges r limit \<Rightarrow> Some r
      | GetBlobGranuleRanges r limit \<Rightarrow> Some r
      | _ \<Rightarrow> None)"

definition onRanges :: "KeyRange set \<Rightarrow> event \<Rightarrow> bool" where
  "onRanges A ev = (case callRange (ev_call ev) of Some r \<Rightarrow> r \<in> A | None \<Rightarrow> True)"

text \<open>
  The oracle's invariant at a suspension point. \<open>touches r c\<close>: the call \<open>c\<close> is a purge or an
  unblobbify of exactly \<open>r\<close>. \<open>cleanSince r past\<close>, over the suspension points so far, latest
  first: some blobbify of \<open>r\<close> returned true and no purge or unblobbify of \<open>r\<close> was issued
  after it. \<open>oracleSound past evs\<close>: at each suspension point of \<open>evs\<close> (which follow \<open>past\<close>),
  every range then held in \<open>activeRanges\<close> is clean over the suspension points before this
  one, and the call issued at this one is not a purge or an unblobbify of it (the reply to
  that call, which arrives after the suspension, does not count).
\<close>

definition touches :: "KeyRange \<Rightarrow> call \<Rightarrow> bool" where
  "touches r c =
     (case c of
        PurgeBlobGranules r' version tenant force \<Rightarrow> r' = r
      | UnblobbifyRange r' \<Rightarrow> r' = r
      | _ \<Rightarrow> False)"



text \<open>The ranges the calls of a history blobbified, in order.\<close>

fun blobbified :: "event list \<Rightarrow> KeyRange list" where
  "blobbified [] = []"
| "blobbified (ev # evs) =
     (case ev_call ev of BlobbifyRange r \<Rightarrow> r # blobbified evs | _ \<Rightarrow> blobbified evs)"






text \<open>
  The suspension points of one unregistration of the range \<open>r\<close>: the oracle's list is already
  \<open>act\<close> (the list without \<open>r\<close>), and the call is the forced purge of \<open>r\<close>, the wait for it, or
  the unblobbify of \<open>r\<close>.
\<close>

definition duringUnregister :: "KeyRange \<Rightarrow> KeyRange list \<Rightarrow> event \<Rightarrow> bool" where
  "duringUnregister r act ev =
     (ev_active ev = act \<and>
      (case ev_call ev of
         PurgeBlobGranules r' version tenant force \<Rightarrow> r' = r \<and> force
       | WaitPurgeGranulesComplete k \<Rightarrow> True
       | UnblobbifyRange r' \<Rightarrow> r' = r
       | _ \<Rightarrow> False))"

text \<open>The driver of one client: \<open>_setup\<close>, then \<open>n\<close> rounds of \<open>blobGranuleRangesClient\<close>.\<close>

definition driver :: "'x Env \<Rightarrow> nat \<Rightarrow> ('x, unit) actor" where
  "driver cx n = bindA (setup_actor cx) (\<lambda>_. blobGranuleRangesClient n cx)"


text \<open>
  The unit runner as the specification describes it, with the enabled scenarios only: the
  branches of RANGES_MISALIGNED and RE_BLOBBIFY are left out of the dispatch.
\<close>

definition dispatchEnabled :: "'x Env \<Rightarrow> nat \<Rightarrow> int \<Rightarrow> KeyRange \<Rightarrow> ('x, unit) actor" where
  "dispatchEnabled cx n op krange =
     (if op = VERIFY_RANGE_UNIT then verifyRangeUnit cx n krange
      else if op = VERIFY_RANGE_GAP_UNIT then verifyRangeGapUnit cx n krange
      else if op = BLOBBIFY_IDEMPOTENT then blobbifyIdempotentUnit cx n krange
      else ASSERT False)"

fun unitTestsEnabledOnly :: "nat \<Rightarrow> 'x Env \<Rightarrow> nat \<Rightarrow> ('x, unit) actor" where
  "unitTestsEnabledOnly 0 cx n = pendingA"
| "unitTestsEnabledOnly (Suc rounds) cx n =
     bindA (getsA stopUnitClient) (\<lambda>stop.
       if stop then returnA ()
       else
         bindA (newKey cx) (\<lambda>k.
         let nextRangeKey = ''U_'' @ k;
             krange = KeyRangeRef nextRangeKey (strinc nextRangeKey)
         in
         bindA (selectOp cx 1000) (\<lambda>op.
         bindA (dispatchEnabled cx n op krange) (\<lambda>_.
         bindA (timerA (Delay 1)) (\<lambda>_.
         unitTestsEnabledOnly rounds cx n)))))"

section \<open>A scripted environment for concrete runs\<close>

text \<open>
  The state of this environment is the list of the random draws still to come; a draw takes
  the head (0 once the list is empty). The database answers by four given functions: whether
  a blobbify and an unblobbify succeed, whether a range verifies as active, and the ranges
  that listing the blobbified ranges or the granules returns. \<open>onError\<close> rethrows.
  \<open>random01\<close> returns the draw divided by 1000 (the runs below draw 500 and 375: 0.5 and
  0.375 are doubles).
\<close>

fun draw :: "int list \<Rightarrow> int \<times> int list" where
  "draw [] = (0, [])"
| "draw (v # vs) = (v, vs)"

definition scriptEnv ::
  "(KeyRange \<Rightarrow> bool) \<Rightarrow> (KeyRange \<Rightarrow> bool) \<Rightarrow> (KeyRange \<Rightarrow> bool) \<Rightarrow> (KeyRange \<Rightarrow> KeyRange list)
     \<Rightarrow> (int list) Env" where
  "scriptEnv canBlobbify canUnblobbify verifies listed =
     \<lparr> blobbifyRange = (\<lambda>r x. (Inr (canBlobbify r), x)),
       unblobbifyRange = (\<lambda>r x. (Inr (canUnblobbify r), x)),
       purgeBlobGranules = (\<lambda>r version tenant force x. (Inr ''purge'', x)),
       waitPurgeGranulesComplete = (\<lambda>k x. (Inr (), x)),
       verifyBlobRange = (\<lambda>r version x. (Inr (if verifies r then 1 else invalidVersion), x)),
       listBlobbifiedRanges = (\<lambda>r limit x. (Inr (listed r), x)),
       getBlobGranuleRanges = (\<lambda>r limit x. (Inr (listed r), x)),
       onError = (\<lambda>e x. (Inl e, x)),
       changeConfig = (\<lambda>c force x. (Inr (), x)),
       randomInt = (\<lambda>lo hi x. draw x),
       randomExp = (\<lambda>lo hi x. draw x),
       random01 = (\<lambda>x. (real_of_int (fst (draw x)) / 1000, snd (draw x))),
       coinflip = (\<lambda>x. (fst (draw x) \<noteq> 0, snd (draw x))),
       randomUniqueID = (\<lambda>x. (format_0x 32 (nat (fst (draw x))), snd (draw x))) \<rparr>"

text \<open>A database where every call succeeds and every range verifies as active.\<close>

definition plainEnv :: "(int list) Env" where
  "plainEnv = scriptEnv (\<lambda>r. True) (\<lambda>r. True) (\<lambda>r. True) (\<lambda>r. [r])"

text \<open>A workload as the constructor builds it for the given client, seed and draws.\<close>

definition workloadOf :: "int \<Rightarrow> int \<Rightarrow> 64 word \<Rightarrow> int list \<Rightarrow> (int list) BlobGranuleRangesWorkload" where
  "workloadOf cid count seed draws =
     projr (newWorkload plainEnv
              \<lparr> wcx_clientId = cid, wcx_clientCount = count, sharedRandomNumber = seed \<rparr>
              \<lparr> opt_testDuration = None, opt_opsPerSecond = None \<rparr> draws)"

text \<open>
  The range of a unit scenario, its inner range \<open>[b.A, b.B)\<close>, and databases that answer as the
  scenarios expect: one that knows the inner range only, one that holds the whole range
  whatever is purged, and one for the gap scenario with the first piece left out.
\<close>

definition unitRange :: KeyRange where
  "unitRange = keyRangeOf ''U_'' ''00000001''"

definition unitActive :: KeyRange where
  "unitActive = KeyRangeRef ''U_00000001A'' ''U_00000001B''"

definition idempotentEnv :: "(int list) Env" where
  "idempotentEnv =
     scriptEnv (\<lambda>r. r = unitActive) (\<lambda>r. r = unitActive) (\<lambda>r. r = unitActive) (\<lambda>r. [unitActive])"

definition misalignedEnv :: "(int list) Env" where
  "misalignedEnv = scriptEnv (\<lambda>r. True) (\<lambda>r. True) (\<lambda>r. True) (\<lambda>r. [unitRange])"

definition gapEnv :: "(int list) Env" where
  "gapEnv =
     scriptEnv (\<lambda>r. True) (\<lambda>r. True)
       (\<lambda>r. r \<noteq> unitRange \<and> r \<noteq> KeyRangeRef ''U_00000001'' ''U_000000010000'')
       (\<lambda>r. if r = KeyRangeRef ''U_00000001'' ''U_000000010000'' then [] else [r])"



section \<open>Auxiliary facts\<close>

declare pushBoundaries.simps [simp del]
declare gapLoop.simps [simp del]
declare selectOp.simps [simp del]
declare startChecks.simps [simp del]
declare toHex.simps [simp del]

lemmas run_simps =
  bindA_def returnA_def throwA_def pendingA_def ASSERT_def dbCall_def timerA_def
  randomA_def getsA_def modifyA_def atA_def setRange_def blobbifyRangeA_def unblobbifyRangeA_def
  purgeBlobGranulesA_def waitPurgeGranulesCompleteA_def listBlobbifiedRangesA_def
  getBlobGranuleRangesA_def isRangeActive_def checkRange_def checkGranules_def
  tearDownRangeAfterUnit_def
  scriptEnv_def invalidVersion_def withSuffix_def keyRangeOf_def strinc_def Let_def

subsection \<open>Truncating division on non-negative numbers\<close>

lemma sdiv_nonneg: "0 \<le> k \<Longrightarrow> 0 < l \<Longrightarrow> (k::int) sdiv l = k div l"
  by (cases "k = 0") (simp_all add: signed_divide_int_def)

lemma smod_nonneg: "0 \<le> k \<Longrightarrow> 0 < l \<Longrightarrow> (k::int) smod l = k mod l"
  by (cases "k = 0") (simp_all add: signed_modulo_int_def)

lemma sdiv_numeral [simp]: "(numeral a :: int) sdiv numeral b = numeral a div numeral b"
  by (simp add: sdiv_nonneg)

lemma sdiv_one [simp]: "(k :: int) sdiv 1 = k"
  by (simp add: signed_divide_int_def sgn_if)

lemma smod_2_range: "- 1 \<le> (k :: int) smod 2 \<and> k smod 2 \<le> 1"
proof -
  have "0 \<le> \<bar>k\<bar> mod 2" "\<bar>k\<bar> mod 2 \<le> 1" by simp_all
  then show ?thesis by (auto simp: signed_modulo_int_def sgn_if)
qed

subsection \<open>The rounding of doubles\<close>

lemma pow2_powr: "pow2 k = 2 powr (real_of_int k)"
  by (simp add: pow2_def powr_real_of_int divide_inverse)

lemma pow2_pos: "0 < pow2 k"
  by (simp add: pow2_def)

lemma floor_log2: "0 < x \<Longrightarrow> pow2 k \<le> x \<Longrightarrow> x < pow2 (k + 1) \<Longrightarrow> \<lfloor>log 2 x\<rfloor> = k"
  by (simp add: floor_log_eq_powr_iff pow2_powr)

text \<open>The rounding of a number whose binade is known.\<close>

lemma binary64_at:
  assumes "pow2 k \<le> \<bar>x\<bar>" "\<bar>x\<bar> < pow2 (k + 1)" "- 1022 \<le> k"
  shows "binary64 x = of_int (roundTiesEven (x / pow2 (k - 52))) * pow2 (k - 52)"
proof -
  have p: "0 < \<bar>x\<bar>" using assms(1) pow2_pos [of k] by linarith
  have "\<lfloor>log 2 \<bar>x\<bar>\<rfloor> = k" using p assms by (intro floor_log2) auto
  then show ?thesis using p assms(3) by (simp add: binary64_def Let_def max_def)
qed

lemma roundTiesEven_nonneg: "0 \<le> x \<Longrightarrow> 0 \<le> roundTiesEven x"
  by (simp add: roundTiesEven_def Let_def)

lemma binary64_nonneg: "0 \<le> x \<Longrightarrow> 0 \<le> binary64 x"
  using pow2_pos by (simp add: binary64_def Let_def roundTiesEven_nonneg less_imp_le)

lemmas binary64_eval = pow2_def roundTiesEven_def Let_def

lemma binary64_literals:
  "binary64 (4 / 5) = 7205759403792794 / 2 ^ 53"
  "binary64 (2 / 5) = 7205759403792794 / 2 ^ 54"
   apply (subst binary64_at [where k = "- 1"]; simp add: binary64_eval)
  apply (subst binary64_at [where k = "- 2"]; simp add: binary64_eval)
  done

lemma binary64_small [simp]:
  "binary64 1 = 1" "binary64 2 = 2" "binary64 3 = 3" "binary64 5 = 5" "binary64 6 = 6"
      apply (subst binary64_at [where k = 0]; simp add: binary64_eval)
     apply (subst binary64_at [where k = 1]; simp add: binary64_eval)
    apply (subst binary64_at [where k = 1]; simp add: binary64_eval)
   apply (subst binary64_at [where k = 2]; simp add: binary64_eval)
  apply (subst binary64_at [where k = 2]; simp add: binary64_eval)
  done

text \<open>With \<open>random01\<close> at 0.5 the factor \<open>0.8 + 0.5 * 0.4\<close> is the double 1.\<close>

lemma factor_half: "doubleAdd (binary64 0.8) (doubleMul (1 / 2) (binary64 0.4)) = 1"
proof -
  have a: "doubleMul (1 / 2) (binary64 0.4) = 7205759403792794 / 2 ^ 55"
    unfolding doubleMul_def
    by (simp add: binary64_literals) (subst binary64_at [where k = "- 3"]; simp add: binary64_eval)
  show ?thesis
    unfolding a doubleAdd_def
    by (simp add: binary64_literals) (subst binary64_at [where k = 0]; simp add: binary64_eval)
qed

lemma scaledRanges_half [simp]: "scaledRanges e (1 / 2) = binary64 (binary64 (real_of_int e))"
  unfolding scaledRanges_def factor_half by (simp add: doubleMul_def intToDouble_def)

text \<open>With \<open>random01\<close> at 0.375 the factor is a double just above 0.95, and 6 times it is
  a double just above 5.7.\<close>

lemma factor_3_8:
  "doubleAdd (binary64 0.8) (doubleMul (3 / 8) (binary64 0.4)) = 8556839292003943 / 2 ^ 53"
proof -
  have a: "doubleMul (3 / 8) (binary64 0.4) = 5404319552844596 / 2 ^ 55"
    unfolding doubleMul_def
    by (simp add: binary64_literals) (subst binary64_at [where k = "- 3"]; simp add: binary64_eval)
  show ?thesis
    unfolding a doubleAdd_def
    by (simp add: binary64_literals) (subst binary64_at [where k = "- 1"]; simp add: binary64_eval)
qed

lemma scaledRanges_6: "scaledRanges 6 (3 / 8) = 6417629469002957 / 2 ^ 50"
  unfolding scaledRanges_def factor_3_8
  by (simp add: doubleMul_def intToDouble_def)
     (subst binary64_at [where k = 2]; simp add: binary64_eval)

text \<open>
  The rounding matters: with \<open>randomExp\<close> at 2 and \<open>random01\<close> at the double just below 0.5,
  the factor is still the double 1 and the constructor's product is 2, while the product of
  the real numbers is below 2.
\<close>

lemma factor_below_half:
  "doubleAdd (binary64 0.8) (doubleMul (1 / 2 - 1 / 2 ^ 54) (binary64 0.4)) = 1"
proof -
  have a: "doubleMul (1 / 2 - 1 / 2 ^ 54) (binary64 0.4) = 7205759403792793 / 2 ^ 55"
    unfolding doubleMul_def
    by (simp add: binary64_literals) (subst binary64_at [where k = "- 3"]; simp add: binary64_eval)
  show ?thesis
    unfolding a doubleAdd_def
    by (simp add: binary64_literals) (subst binary64_at [where k = 0]; simp add: binary64_eval)
qed

lemma rounding_matters:
  "doubleToInt (scaledRanges 2 (1 / 2 - 1 / 2 ^ 54)) = 2"
  "doubleToInt (2 * (0.8 + (1 / 2 - 1 / 2 ^ 54) * 0.4)) = 1"
proof -
  show "doubleToInt (scaledRanges 2 (1 / 2 - 1 / 2 ^ 54)) = 2"
    unfolding scaledRanges_def factor_below_half
    by (simp add: doubleMul_def intToDouble_def doubleToInt_def)
  show "doubleToInt (2 * (0.8 + (1 / 2 - 1 / 2 ^ 54) * 0.4)) = 1"
    by (simp add: doubleToInt_def)
qed

lemma scaledRanges_nonneg:
  assumes "0 \<le> e" "0 \<le> u"
  shows "0 \<le> scaledRanges e u"
proof -
  have "0 \<le> binary64 0.4" "0 \<le> binary64 0.8" by (simp_all add: binary64_nonneg)
  then have "0 \<le> doubleAdd (binary64 0.8) (doubleMul u (binary64 0.4))"
    using assms(2) by (simp add: doubleAdd_def doubleMul_def binary64_nonneg)
  moreover have "0 \<le> intToDouble e"
    using assms(1) by (simp add: intToDouble_def binary64_nonneg)
  ultimately show ?thesis by (simp add: scaledRanges_def doubleMul_def binary64_nonneg)
qed

lemma doubleToInt_numeral [simp]:
  "doubleToInt (numeral k) = numeral k" "doubleToInt 1 = 1" "doubleToInt 0 = 0"
  by (simp_all add: doubleToInt_def)

subsection \<open>The constructor\<close>

lemma newWorkload_fields:
  "newWorkload cx wcx options x0 = Inr w \<Longrightarrow>
     sequentialGap w = deriveSequentialGap (sint (sharedRandomNumber wcx)) \<and>
     sequential w = deriveSequential (sint (sharedRandomNumber wcx)) \<and>
     nextKey w = word_of_int (10000000 * wcx_clientId wcx) \<and>
     clientCount w = wcx_clientCount wcx \<and>
     activeRanges w = [] \<and> inactiveRanges w = [] \<and> history w = []"
  by (auto simp: newWorkload_def Let_def split: prod.splits if_splits)

lemma newWorkload_plain:
  assumes "count \<noteq> 0"
      and "- 2147483648 \<le> d sdiv count" "d sdiv count \<le> 2147483647"
      and "- 2147483649 < scaledRanges e (real_of_int u / 1000)"
          "scaledRanges e (real_of_int u / 1000) < 2147483648"
      and "- 2147483648 \<le> doubleToInt (scaledRanges e (real_of_int u / 1000)) sdiv count"
          "doubleToInt (scaledRanges e (real_of_int u / 1000)) sdiv count \<le> 2147483647"
      and "- 2147483648 \<le> 10000000 * cid" "10000000 * cid \<le> 2147483647"
  shows
  "newWorkload plainEnv
      \<lparr> wcx_clientId = cid, wcx_clientCount = count, sharedRandomNumber = seed \<rparr>
      \<lparr> opt_testDuration = None, opt_opsPerSecond = None \<rparr> (d # e # u # rest)
   = Inr \<lparr> clientId = cid, clientCount = count, testDuration = 30,
           operationsPerSecond = (if d sdiv count \<le> 0 then 1 else d sdiv count),
           targetRanges = deriveTargetRanges e (real_of_int u / 1000) count,
           sequential = deriveSequential (sint seed),
           sequentialGap = deriveSequentialGap (sint seed), stopUnitClient = False,
           nextKey = word_of_int (10000000 * cid), inactiveRanges = [], activeRanges = [],
           sim = rest, history = [] \<rparr>"
  using assms
  by (simp add: newWorkload_def plainEnv_def scriptEnv_def getOption_def Let_def
      intOverflows_def doubleFitsInt_def)

lemma workloadOf_eq:
  assumes "count \<noteq> 0"
      and "- 2147483648 \<le> d sdiv count" "d sdiv count \<le> 2147483647"
      and "- 2147483649 < scaledRanges e (real_of_int u / 1000)"
          "scaledRanges e (real_of_int u / 1000) < 2147483648"
      and "- 2147483648 \<le> doubleToInt (scaledRanges e (real_of_int u / 1000)) sdiv count"
          "doubleToInt (scaledRanges e (real_of_int u / 1000)) sdiv count \<le> 2147483647"
      and "- 2147483648 \<le> 10000000 * cid" "10000000 * cid \<le> 2147483647"
  shows
  "workloadOf cid count seed (d # e # u # rest)
   = \<lparr> clientId = cid, clientCount = count, testDuration = 30,
       operationsPerSecond = (if d sdiv count \<le> 0 then 1 else d sdiv count),
       targetRanges = deriveTargetRanges e (real_of_int u / 1000) count,
       sequential = deriveSequential (sint seed),
       sequentialGap = deriveSequentialGap (sint seed), stopUnitClient = False,
       nextKey = word_of_int (10000000 * cid), inactiveRanges = [], activeRanges = [],
       sim = rest, history = [] \<rparr>"
  using assms by (simp add: workloadOf_def newWorkload_plain)

lemma seed_10 [simp]: "deriveSequential 10" "deriveSequentialGap 10 = 1"
  by (simp_all add: deriveSequential_def deriveSequentialGap_def signed_divide_int_def
      signed_modulo_int_def)

lemma seed_12 [simp]: "deriveSequential 12" "deriveSequentialGap 12 = 1"
  by (simp_all add: deriveSequential_def deriveSequentialGap_def signed_divide_int_def
      signed_modulo_int_def)

lemma seed_30 [simp]: "deriveSequential 30" "deriveSequentialGap 30 = 2"
  by (simp_all add: deriveSequential_def deriveSequentialGap_def signed_divide_int_def
      signed_modulo_int_def)

lemma seed_minus_30 [simp]: "deriveSequential (- 30)" "deriveSequentialGap (- 30) = 0"
  by (simp_all add: deriveSequential_def deriveSequentialGap_def signed_divide_int_def
      signed_modulo_int_def)

lemma deriveSequentialGap_nonneg:
  assumes "0 \<le> rand"
  shows "deriveSequentialGap rand = 1 \<or> deriveSequentialGap rand = 2"
proof -
  have a: "rand sdiv 10 = rand div 10" using assms by (simp add: sdiv_nonneg)
  have b: "0 \<le> rand div 10" using assms by simp
  have c: "(rand div 10) sdiv 2 = rand div 10 div 2" using b by (simp add: sdiv_nonneg)
  have d: "0 \<le> rand div 10 div 2" using b by simp
  have e: "(rand div 10 div 2) smod 2 = rand div 10 div 2 mod 2" using d by (simp add: smod_nonneg)
  show ?thesis unfolding deriveSequentialGap_def a c e by presburger
qed

lemma deriveSequentialGap_range: "0 \<le> deriveSequentialGap rand \<and> deriveSequentialGap rand \<le> 2"
  using smod_2_range [of "(rand sdiv 10) sdiv 2"] by (simp add: deriveSequentialGap_def)

subsection \<open>The sequential key generator\<close>

lemma sint_fits:
  assumes "\<not> intOverflows n"
  shows "sint (word_of_int n :: 32 word) = n"
proof -
  have "signed_take_bit 31 n = n"
    using assms by (intro signed_take_bit_int_eq_self) (auto simp: intOverflows_def)
  then show ?thesis by (simp add: signed_of_int)
qed

lemma unat_fits:
  assumes "0 \<le> n" "\<not> intOverflows n"
  shows "unat (word_of_int n :: 32 word) = nat n"
proof -
  have "n < 2 ^ 32" using assms by (simp add: intOverflows_def)
  then have "take_bit 32 n = n" using assms(1) by (simp add: take_bit_int_eq_self)
  then show ?thesis by (simp add: unsigned_of_int)
qed

lemma newKey_sequential:
  "sequential s \<Longrightarrow> \<not> intOverflows (sint (nextKey s) + sequentialGap s) \<Longrightarrow>
   newKey cx s =
     (Returned (format_0x 8 (unat (word_of_int (sint (nextKey s) + sequentialGap s) :: 32 word))),
      s\<lparr>nextKey := word_of_int (sint (nextKey s) + sequentialGap s)\<rparr>)"
  by (simp add: newKey_def Let_def)

lemma newKey_overflow:
  "sequential s \<Longrightarrow> intOverflows (sint (nextKey s) + sequentialGap s) \<Longrightarrow>
   newKey cx s = (Thrown undefined_behaviour, s)"
  by (simp add: newKey_def Let_def)

section \<open>The derived settings\<close>

text \<open>
  Claim C7, as amended. For every shared random seed that is not negative, the constructor
  derives a \<open>sequentialGap\<close> of exactly 1 or 2, and then, in sequential mode, a call of
  \<open>newKey\<close> strictly increases \<open>nextKey\<close> (read as the signed 32-bit integer it is) whenever
  the sum still fits in 32 bits. A negative seed is outside the statement: there \<open>%\<close> yields
  \<open>-1\<close> or \<open>0\<close> and the gap is 0 or 1.
\<close>

theorem sequentialGap_nonneg_seed:
  assumes "newWorkload cx wcx options x0 = Inr w"
      and "0 \<le> sint (sharedRandomNumber wcx)"
  shows "(sequentialGap w = 1 \<or> sequentialGap w = 2) \<and>
         (\<forall>s. sequential s \<and> sequentialGap s = sequentialGap w \<and>
               sint (nextKey s) + sequentialGap s < 2 ^ 31
            \<longrightarrow> sint (nextKey s) < sint (nextKey (snd (newKey cx s))))"
proof -
  have g: "sequentialGap w = 1 \<or> sequentialGap w = 2"
    using newWorkload_fields [OF assms(1)] deriveSequentialGap_nonneg [OF assms(2)] by simp
  have "sint (nextKey s) < sint (nextKey (snd (newKey cx s)))"
    if "sequential s" "sequentialGap s = sequentialGap w"
       "sint (nextKey s) + sequentialGap s < 2 ^ 31" for s
  proof -
    have lo: "- (2 ^ 31) \<le> sint (nextKey s)" using sint_ge [of "nextKey s"] by simp
    have fits: "\<not> intOverflows (sint (nextKey s) + sequentialGap s)"
      using g that lo by (auto simp: intOverflows_def)
    have "sint (word_of_int (sint (nextKey s) + sequentialGap s) :: 32 word)
            = sint (nextKey s) + sequentialGap s"
      by (rule sint_fits [OF fits])
    then show ?thesis using g that fits by (auto simp: newKey_sequential)
  qed
  then show ?thesis using g by blast
qed

text \<open>The seed 10 on client 1: the gap is 1 and the first key moves the counter up.\<close>

theorem sequentialGap_nonneg_seed_witness:
  "newWorkload plainEnv
      \<lparr> wcx_clientId = 1, wcx_clientCount = 1, sharedRandomNumber = 10 \<rparr>
      \<lparr> opt_testDuration = None, opt_opsPerSecond = None \<rparr> [50, 3, 500]
     = Inr (workloadOf 1 1 10 [50, 3, 500])
   \<and> (0::int) \<le> sint (10 :: 64 word)
   \<and> sequentialGap (workloadOf 1 1 10 [50, 3, 500]) = 1
   \<and> sint (nextKey (workloadOf 1 1 10 [50, 3, 500]))
       < sint (nextKey (snd (newKey plainEnv (workloadOf 1 1 10 [50, 3, 500]))))"
proof -
  let ?w = "workloadOf 1 1 10 [50, 3, 500]"
  have h1: "newWorkload plainEnv
      \<lparr> wcx_clientId = 1, wcx_clientCount = 1, sharedRandomNumber = 10 \<rparr>
      \<lparr> opt_testDuration = None, opt_opsPerSecond = None \<rparr> [50, 3, 500] = Inr ?w"
    by (simp add: newWorkload_plain workloadOf_eq)
  have h2: "0 \<le> sint (sharedRandomNumber
      \<lparr> wcx_clientId = 1, wcx_clientCount = 1, sharedRandomNumber = (10 :: 64 word) \<rparr>)"
    by simp
  have g: "sequentialGap ?w = 1" and q: "sequential ?w"
    by (simp_all add: workloadOf_eq)
  have n: "sint (nextKey ?w) + sequentialGap ?w < 2 ^ 31"
    by (simp add: workloadOf_eq)
  from sequentialGap_nonneg_seed [OF h1 h2]
  have "sint (nextKey ?w) < sint (nextKey (snd (newKey plainEnv ?w)))"
    using q n by blast
  with h1 g show ?thesis by simp
qed

text \<open>
  The claim as stated fails on the seed \<open>-30\<close>: the workload is sequential, its gap is 0 and
  \<open>newKey\<close> leaves \<open>nextKey\<close> where it was.
\<close>

theorem sequentialGap_negative_seed:
  "sequential (workloadOf 0 1 (- 30) [50, 3, 500])
   \<and> sequentialGap (workloadOf 0 1 (- 30) [50, 3, 500]) = 0
   \<and> nextKey (snd (newKey plainEnv (workloadOf 0 1 (- 30) [50, 3, 500])))
       = nextKey (workloadOf 0 1 (- 30) [50, 3, 500])"
  by (simp add: workloadOf_eq newKey_def intOverflows_def)

text \<open>
  Claim C6, as amended. \<open>targetRanges\<close> is \<open>max(1, t)\<close> where \<open>t\<close> is the double
  \<open>exp_random * (0.8 + random01 * 0.4)\<close> (each operation rounded to a double) cut to an
  \<open>int\<close> (the fraction dropped) and then divided by \<open>clientCount\<close> with the integer division
  of C++ (the fraction dropped again). For draws that are not negative and at least one
  client, both cuts are floors. Nothing is rounded to the nearest integer.
\<close>

theorem targetRanges_truncated:
  assumes "newWorkload cx wcx options x0 = Inr w"
      and "randomInt cx 1 100 x0 = (d, x1)"
      and "randomExp cx 1 (1 + sint (sharedRandomNumber wcx) smod 10) x1 = (e, x2)"
      and "random01 cx x2 = (u, x3)"
  shows "targetRanges w
           = max 1 (doubleToInt
                      (doubleMul (intToDouble e)
                         (doubleAdd (binary64 0.8) (doubleMul u (binary64 0.4))))
                    sdiv clientCount w)
         \<and> 1 \<le> targetRanges w
         \<and> (0 \<le> e \<and> 0 \<le> u \<and> 1 \<le> clientCount w
              \<longrightarrow> targetRanges w
                    = max 1 (\<lfloor>doubleMul (intToDouble e)
                                (doubleAdd (binary64 0.8) (doubleMul u (binary64 0.4)))\<rfloor>
                             div clientCount w))"
proof -
  let ?p = "doubleMul (intToDouble e) (doubleAdd (binary64 0.8) (doubleMul u (binary64 0.4)))"
  have p: "?p = scaledRanges e u" by (simp add: scaledRanges_def)
  have t: "targetRanges w = deriveTargetRanges e u (clientCount w)"
    using assms by (auto simp: newWorkload_def Let_def split: prod.splits if_splits)
  have m: "deriveTargetRanges e u (clientCount w) = max 1 (doubleToInt ?p sdiv clientCount w)"
    unfolding p by (simp add: deriveTargetRanges_def Let_def max_def)
  have two: "targetRanges w = max 1 (doubleToInt ?p sdiv clientCount w)"
    using t m by simp
  have one: "1 \<le> targetRanges w" unfolding two by simp
  have f: "targetRanges w = max 1 (\<lfloor>?p\<rfloor> div clientCount w)"
    if "0 \<le> e" "0 \<le> u" "1 \<le> clientCount w"
  proof -
    have nn: "0 \<le> ?p" unfolding p using that by (intro scaledRanges_nonneg)
    then have d: "doubleToInt ?p = \<lfloor>?p\<rfloor>" by (simp add: doubleToInt_def)
    have fl: "0 \<le> \<lfloor>?p\<rfloor>" using nn by simp
    have "\<lfloor>?p\<rfloor> sdiv clientCount w = \<lfloor>?p\<rfloor> div clientCount w"
      using fl that(3) by (intro sdiv_nonneg) auto
    then show ?thesis unfolding two d by simp
  qed
  show ?thesis
  proof (intro conjI impI)
    show "targetRanges w = max 1 (doubleToInt ?p sdiv clientCount w)" by (rule two)
    show "1 \<le> targetRanges w" by (rule one)
    show "targetRanges w = max 1 (\<lfloor>?p\<rfloor> div clientCount w)"
      if "0 \<le> e \<and> 0 \<le> u \<and> 1 \<le> clientCount w"
      using f that by blast
  qed
qed

text \<open>
  The seed 12 and three clients; \<open>randomExp(1, 3)\<close> draws 5 and \<open>random01\<close> draws 0.5: the
  factor is the double 1, the product the double 5, and 5 / 3 is cut to 1.
\<close>

theorem targetRanges_truncated_witness:
  "newWorkload plainEnv
      \<lparr> wcx_clientId = 0, wcx_clientCount = 3, sharedRandomNumber = 12 \<rparr>
      \<lparr> opt_testDuration = None, opt_opsPerSecond = None \<rparr> [50, 5, 500]
     = Inr (workloadOf 0 3 12 [50, 5, 500])
   \<and> randomInt plainEnv 1 100 [50, 5, 500] = (50, [5, 500])
   \<and> randomExp plainEnv 1 (1 + sint (12 :: 64 word) smod 10) [5, 500] = (5, [500])
   \<and> random01 plainEnv [500] = (1 / 2, [])
   \<and> doubleMul (intToDouble 5) (doubleAdd (binary64 0.8) (doubleMul (1 / 2) (binary64 0.4))) = 5
   \<and> targetRanges (workloadOf 0 3 12 [50, 5, 500]) = 1"
proof -
  let ?wcx = "\<lparr> wcx_clientId = 0, wcx_clientCount = 3, sharedRandomNumber = (12 :: 64 word) \<rparr>"
  let ?w = "workloadOf 0 3 12 [50, 5, 500]"
  have h1: "newWorkload plainEnv ?wcx
      \<lparr> opt_testDuration = None, opt_opsPerSecond = None \<rparr> [50, 5, 500] = Inr ?w"
    by (simp add: newWorkload_plain workloadOf_eq)
  have h2: "randomInt plainEnv 1 100 [50, 5, 500] = (50, [5, 500])"
    by (simp add: plainEnv_def scriptEnv_def)
  have h3: "randomExp plainEnv 1 (1 + sint (sharedRandomNumber ?wcx) smod 10) [5, 500] = (5, [500])"
    by (simp add: plainEnv_def scriptEnv_def)
  have h4: "random01 plainEnv [500] = (1 / 2, [])"
    by (simp add: plainEnv_def scriptEnv_def)
  have c: "clientCount ?w = 3" by (simp add: workloadOf_eq)
  have p: "doubleMul (intToDouble 5) (doubleAdd (binary64 0.8) (doubleMul (1 / 2) (binary64 0.4))) = 5"
    using scaledRanges_half [of 5] by (simp add: scaledRanges_def)
  from targetRanges_truncated [OF h1 h2 h3 h4]
  have "targetRanges ?w = 1" unfolding p by (simp add: c)
  with h1 h2 h3 h4 p show ?thesis by simp
qed

text \<open>
  The claim as stated fails, with the seed 12 (so that \<open>randomExp(1, 3)\<close> can draw 5 or 6):
  with the draws 5 and 0.5 and three clients the constructor stores 1 (5 / 3 cut), the
  specification's formula gives 2; with the draws 6 and 0.375 and one client the constructor
  stores 5 (the double just above 5.7 cut), the formula gives 6.
\<close>

theorem targetRanges_not_rounded:
  "targetRanges (workloadOf 0 3 12 [50, 5, 500]) = 1
   \<and> targetRanges_spec 5 (1 / 2) 3 = 2
   \<and> targetRanges (workloadOf 0 1 12 [50, 6, 375]) = 5
   \<and> targetRanges_spec 6 (3 / 8) 1 = 6"
proof -
  have a: "targetRanges (workloadOf 0 3 12 [50, 5, 500]) = 1"
    by (simp add: workloadOf_eq deriveTargetRanges_def)
  have b: "targetRanges (workloadOf 0 1 12 [50, 6, 375]) = 5"
    by (simp add: workloadOf_eq scaledRanges_6 doubleToInt_def deriveTargetRanges_def)
  have c: "targetRanges_spec 5 (1 / 2) 3 = 2" "targetRanges_spec 6 (3 / 8) 1 = 6"
    by (simp_all add: targetRanges_spec_def round_def)
  from a b c show ?thesis by simp
qed

section \<open>What an actor appends to the history\<close>

lemma emitsI: "(\<And>s. \<exists>evs. history (snd (m s)) = history s @ evs \<and> list_all P evs) \<Longrightarrow> emits P m"
  by (simp add: emits_def)

lemma emits_returnA: "emits P (returnA a)"
  by (simp add: emits_def returnA_def)

lemma emits_throwA: "emits P (throwA e)"
  by (simp add: emits_def throwA_def)

lemma emits_pendingA: "emits P pendingA"
  by (simp add: emits_def pendingA_def)

lemma emits_getsA: "emits P (getsA f)"
  by (simp add: emits_def getsA_def)

lemma emits_ASSERT: "emits P (ASSERT b)"
  by (simp add: ASSERT_def emits_returnA emits_throwA)

lemma emits_atA: "emits P (atA xs i)"
  by (simp add: atA_def emits_returnA emits_throwA)

lemma emits_randomA: "emits P (randomA f)"
  by (simp add: emits_def randomA_def split: prod.splits)

lemma emits_modifyA: "(\<And>s. history (f s) = history s) \<Longrightarrow> emits P (modifyA f)"
  by (simp add: emits_def modifyA_def)

lemma emits_dbCall: "(\<And>rp act. P (Event c rp act)) \<Longrightarrow> emits P (dbCall c rep f)"
  by (auto simp: emits_def dbCall_def split: prod.splits sum.splits)

lemma emits_timerA: "(\<And>rp act. P (Event c rp act)) \<Longrightarrow> emits P (timerA c)"
  by (simp add: emits_def timerA_def)

lemma emits_bindA:
  assumes "emits P m" and "\<And>a. emits P (f a)"
  shows "emits P (bindA m f)"
proof (rule emitsI)
  fix s
  obtain r s' where ms: "m s = (r, s')" by (cases "m s")
  from assms(1) obtain evs where e1: "history s' = history s @ evs" "list_all P evs"
    using ms by (auto simp: emits_def dest: spec [where x = s])
  show "\<exists>evs. history (snd (bindA m f s)) = history s @ evs \<and> list_all P evs"
  proof (cases r)
    case (Returned a)
    from assms(2) [of a] obtain evs' where e2: "history (snd (f a s')) = history s' @ evs'" "list_all P evs'"
      by (auto simp: emits_def dest: spec [where x = s'])
    have "history (snd (bindA m f s)) = history s @ (evs @ evs')"
      using ms Returned e1 e2 by (simp add: bindA_def)
    moreover have "list_all P (evs @ evs')" using e1 e2 by simp
    ultimately show ?thesis by blast
  next
    case (Thrown e)
    then show ?thesis using ms e1 by (auto simp: bindA_def)
  next
    case Pending
    then show ?thesis using ms e1 by (auto simp: bindA_def)
  qed
qed

lemma emits_seqA_Nil: "emits P (seqA [])"
  by (simp add: emits_returnA)

lemma emits_seqA_Cons: "emits P m \<Longrightarrow> emits P (seqA ms) \<Longrightarrow> emits P (seqA (m # ms))"
  by (simp add: emits_bindA)

lemma emits_seqA: "(\<And>m. m \<in> set ms \<Longrightarrow> emits P m) \<Longrightarrow> emits P (seqA ms)"
  by (induction ms) (simp_all add: emits_returnA emits_bindA)

lemma emits_if: "(b \<Longrightarrow> emits P m) \<Longrightarrow> (\<not> b \<Longrightarrow> emits P m') \<Longrightarrow> emits P (if b then m else m')"
  by simp

lemma emits_repeatA: "emits P m \<Longrightarrow> emits P (repeatA n m)"
  by (induction n) (simp_all add: emits_returnA emits_bindA)

lemma emits_retryLoop:
  assumes "emits P body" and "\<And>e rp act. P (Event (OnError e) rp act)"
  shows "emits P (retryLoop n cx body)"
proof (induction n)
  case 0
  show ?case by (simp add: emits_pendingA)
next
  case (Suc n)
  show ?case
  proof (rule emitsI)
    fix s
    obtain r s' where bs: "body s = (r, s')" by (cases "body s")
    from assms(1) obtain evs where e1: "history s' = history s @ evs" "list_all P evs"
      using bs by (auto simp: emits_def dest: spec [where x = s])
    show "\<exists>evs. history (snd (retryLoop (Suc n) cx body s)) = history s @ evs \<and> list_all P evs"
    proof (cases r)
      case (Thrown e)
      have "emits P (bindA (dbCall (OnError e) (\<lambda>_. RVoid) (onError cx e)) (\<lambda>_. retryLoop n cx body))"
        by (intro emits_bindA emits_dbCall assms(2) Suc)
      then obtain evs' where e2:
        "history (snd (bindA (dbCall (OnError e) (\<lambda>_. RVoid) (onError cx e)) (\<lambda>_. retryLoop n cx body) s'))
           = history s' @ evs'" "list_all P evs'"
        by (auto simp: emits_def dest: spec [where x = s'])
      have "history (snd (retryLoop (Suc n) cx body s)) = history s @ (evs @ evs')"
        using bs Thrown e1 e2 by simp
      moreover have "list_all P (evs @ evs')" using e1 e2 by simp
      ultimately show ?thesis by blast
    next
      case (Returned a)
      then show ?thesis using bs e1 by auto
    next
      case Pending
      then show ?thesis using bs e1 by auto
    qed
  qed
qed

lemmas emits_intros = emits_returnA emits_throwA emits_pendingA emits_getsA emits_ASSERT emits_atA
  emits_randomA emits_bindA emits_seqA_Nil emits_seqA_Cons emits_if emits_repeatA

subsection \<open>No actor passes another purge version or a tenant\<close>

lemma purgeArgsOk_simps [simp]:
  "purgeArgsOk (Event (PurgeBlobGranules r v t f) rp act) = (v = 1 \<and> t = None)"
  "purgeArgsOk (Event (BlobbifyRange r) rp act)"
  "purgeArgsOk (Event (UnblobbifyRange r) rp act)"
  "purgeArgsOk (Event (WaitPurgeGranulesComplete k) rp act)"
  "purgeArgsOk (Event (VerifyBlobRange r vo) rp act)"
  "purgeArgsOk (Event (ListBlobbifiedRanges r l) rp act)"
  "purgeArgsOk (Event (GetBlobGranuleRanges r l) rp act)"
  "purgeArgsOk (Event (OnError e) rp act)"
  "purgeArgsOk (Event (ChangeConfig c b) rp act)"
  "purgeArgsOk (Event (Delay d) rp act)"
  "purgeArgsOk (Event WaitNextOp rp act)"
  by (simp_all add: purgeArgsOk_def)

lemma purge_setRange: "emits purgeArgsOk (setRange cx r b)"
  by (simp add: setRange_def blobbifyRangeA_def unblobbifyRangeA_def emits_dbCall)

lemma purge_isRangeActive: "emits purgeArgsOk (isRangeActive cx r)"
  unfolding isRangeActive_def by (intro emits_intros emits_dbCall) simp

lemma purge_pollRange: "emits purgeArgsOk (pollRange n cx r b)"
  by (induction n) (auto intro!: emits_intros emits_timerA purge_isRangeActive)

lemma purge_checkGranules: "emits purgeArgsOk (checkGranules r b gs)"
  unfolding checkGranules_def by (intro emits_intros)

lemma purge_checkRange: "emits purgeArgsOk (checkRange cx n r b)"
  unfolding checkRange_def listBlobbifiedRangesA_def getBlobGranuleRangesA_def
  by (intro emits_intros emits_dbCall emits_retryLoop purge_pollRange purge_checkGranules) simp_all

lemma purge_purge: "emits purgeArgsOk (purgeBlobGranulesA cx r 1 None f)"
  unfolding purgeBlobGranulesA_def by (intro emits_dbCall) simp

lemma purge_waitPurge: "emits purgeArgsOk (waitPurgeGranulesCompleteA cx k)"
  unfolding waitPurgeGranulesCompleteA_def by (intro emits_dbCall) simp

lemma purge_tearDown: "emits purgeArgsOk (tearDownRangeAfterUnit cx r)"
  unfolding tearDownRangeAfterUnit_def
  by (intro emits_intros purge_purge purge_waitPurge purge_setRange)

lemmas purge_intros = emits_intros purge_setRange purge_isRangeActive purge_pollRange
  purge_checkGranules purge_checkRange purge_purge purge_waitPurge purge_tearDown

lemma purge_newKey: "emits purgeArgsOk (newKey cx)"
  by (rule emitsI) (auto simp: newKey_def Let_def randomA_def split: prod.splits)

lemma purge_register: "emits purgeArgsOk (registerNewRange cx)"
  unfolding registerNewRange_def Let_def
  by (intro purge_intros purge_newKey emits_modifyA) simp

lemma purge_unregister: "emits purgeArgsOk (unregisterRandomRange cx)"
  unfolding unregisterRandomRange_def
  by (intro purge_intros emits_modifyA) simp_all

lemma purge_setup: "emits purgeArgsOk (setup_actor cx)"
  unfolding setup_actor_def
  by (intro purge_intros purge_register emits_dbCall) simp

lemma purge_client: "emits purgeArgsOk (blobGranuleRangesClient n cx)"
  by (induction n) (auto intro!: purge_intros purge_register purge_unregister emits_timerA)

lemma purge_verifyRangeUnit: "emits purgeArgsOk (verifyRangeUnit cx n r)"
  unfolding verifyRangeUnit_def Let_def by (intro purge_intros)

lemma purge_gapLoop: "emits purgeArgsOk (gapLoop cx n bs g rc i)"
proof (induction cx n bs g rc i rule: gapLoop.induct)
  case (1 cx n bs g rc i)
  show ?case
    by (subst gapLoop.simps) (intro purge_intros 1, assumption)
qed

lemma purge_gapRest: "emits purgeArgsOk (verifyRangeGapRest cx n r rc)"
  unfolding verifyRangeGapRest_def Let_def by (intro purge_intros purge_gapLoop)

lemma purge_gapUnit: "emits purgeArgsOk (verifyRangeGapUnit cx n r)"
  unfolding verifyRangeGapUnit_def by (intro purge_intros purge_gapRest)

lemma purge_misaligned: "emits purgeArgsOk (rangesMisalignedUnit cx n r)"
  unfolding rangesMisalignedUnit_def Let_def listBlobbifiedRangesA_def getBlobGranuleRangesA_def
  by (intro purge_intros emits_retryLoop emits_dbCall) simp_all

lemma purge_idempotent: "emits purgeArgsOk (blobbifyIdempotentUnit cx n r)"
  unfolding blobbifyIdempotentUnit_def Let_def listBlobbifiedRangesA_def getBlobGranuleRangesA_def
  by (intro purge_intros emits_retryLoop emits_dbCall) simp_all

lemma purge_reBlobbify: "emits purgeArgsOk (reBlobbifyUnit cx n r)"
  unfolding reBlobbifyUnit_def by (intro purge_intros)

lemma purge_dispatch: "emits purgeArgsOk (dispatchUnit cx n op r)"
  unfolding dispatchUnit_def
  by (intro purge_intros purge_verifyRangeUnit purge_gapUnit purge_misaligned purge_idempotent purge_reBlobbify)

lemma selectOp_history: "history (snd (selectOp cx lt s)) = history s"
proof (induction cx lt s rule: selectOp.induct)
  case (1 cx lt s)
  show ?case
    using 1 by (subst selectOp.simps) (auto split: prod.splits)
qed

lemma emits_selectOp: "emits P (selectOp cx lt)"
  by (rule emitsI) (simp add: selectOp_history)

lemma purge_unitTests: "emits purgeArgsOk (blobGranuleRangesUnitTests rounds cx n)"
  by (induction rounds)
     (auto simp: Let_def intro!: purge_intros purge_newKey emits_selectOp purge_dispatch emits_timerA)

lemma purge_check: "emits purgeArgsOk (check_actor cx n)"
  unfolding check_actor_def waitForAll_def
  by (intro purge_intros emits_seqA) (auto simp: purge_checkRange)


lemma purge_driver: "emits purgeArgsOk (driver cx n)"
  unfolding driver_def by (intro emits_bindA purge_setup purge_client)

lemma emits_from_empty:
  "emits P m \<Longrightarrow> history s = [] \<Longrightarrow> list_all P (history (snd (m s)))"
  by (auto simp: emits_def dest: spec [where x = s])

text \<open>
  Claim C10. Every \<open>purgeBlobGranules\<close> call of the workload passes the purge version 1 and
  no tenant: each actor that purges (the driver's unregistration, the tear-down helper and
  the scenarios BLOBBIFY_IDEMPOTENT, RANGES_MISALIGNED and RE_BLOBBIFY), and with them the
  whole driver, the unit runner and the checker, only appends suspension points whose purge
  calls have these arguments, whatever the environment answers and whatever the state.
\<close>

theorem every_purge_version_1_no_tenant:
  "emits purgeArgsOk (unregisterRandomRange cx)
   \<and> emits purgeArgsOk (tearDownRangeAfterUnit cx krange)
   \<and> emits purgeArgsOk (blobbifyIdempotentUnit cx n krange)
   \<and> emits purgeArgsOk (rangesMisalignedUnit cx n krange)
   \<and> emits purgeArgsOk (reBlobbifyUnit cx n krange)
   \<and> emits purgeArgsOk (verifyRangeUnit cx n krange)
   \<and> emits purgeArgsOk (verifyRangeGapUnit cx n krange)
   \<and> emits purgeArgsOk (driver cx rounds)
   \<and> emits purgeArgsOk (blobGranuleRangesUnitTests rounds cx n)
   \<and> emits purgeArgsOk (check_actor cx n)"
  by (intro conjI purge_unregister purge_tearDown purge_idempotent purge_misaligned
      purge_reBlobbify purge_verifyRangeUnit purge_gapUnit purge_driver purge_unitTests
      purge_check)

text \<open>
  An unregistration that flips the coin to a forced purge: the purge of the chosen range is
  in the history, with version 1 and no tenant.
\<close>

theorem every_purge_version_1_no_tenant_witness:
  "list_all purgeArgsOk
     (history (snd (unregisterRandomRange plainEnv
        ((workloadOf 0 1 10 [50, 3, 500])\<lparr>activeRanges := [unitRange], sim := [0, 1]\<rparr>))))
   \<and> map ev_call
     (history (snd (unregisterRandomRange plainEnv
        ((workloadOf 0 1 10 [50, 3, 500])\<lparr>activeRanges := [unitRange], sim := [0, 1]\<rparr>))))
     = [PurgeBlobGranules unitRange 1 None True,
        WaitPurgeGranulesComplete ''purge'',
        UnblobbifyRange unitRange]"
proof -
  let ?s = "(workloadOf 0 1 10 [50, 3, 500])\<lparr>activeRanges := [unitRange], sim := [0, 1]\<rparr>"
  have h: "history ?s = []" by (simp add: workloadOf_eq)
  have e: "emits purgeArgsOk (unregisterRandomRange plainEnv :: (int list, unit) actor)"
    using every_purge_version_1_no_tenant [of plainEnv unitRange 0 0] by blast
  have a: "list_all purgeArgsOk (history (snd (unregisterRandomRange plainEnv ?s)))"
    by (rule emits_from_empty [OF e h])
  have b: "map ev_call (history (snd (unregisterRandomRange plainEnv ?s)))
     = [PurgeBlobGranules unitRange 1 None True,
        WaitPurgeGranulesComplete ''purge'',
        UnblobbifyRange unitRange]"
    by (simp add: unregisterRandomRange_def workloadOf_eq plainEnv_def run_simps swapAndPop_def)
  from a b show ?thesis by simp
qed

section \<open>The checker\<close>

lemma onRanges_simps [simp]:
  "onRanges A (Event (PurgeBlobGranules r v t f) rp act) = (r \<in> A)"
  "onRanges A (Event (BlobbifyRange r) rp act) = (r \<in> A)"
  "onRanges A (Event (UnblobbifyRange r) rp act) = (r \<in> A)"
  "onRanges A (Event (WaitPurgeGranulesComplete k) rp act)"
  "onRanges A (Event (VerifyBlobRange r vo) rp act) = (r \<in> A)"
  "onRanges A (Event (ListBlobbifiedRanges r l) rp act) = (r \<in> A)"
  "onRanges A (Event (GetBlobGranuleRanges r l) rp act) = (r \<in> A)"
  "onRanges A (Event (OnError e) rp act)"
  "onRanges A (Event (ChangeConfig c b) rp act)"
  "onRanges A (Event (Delay d) rp act)"
  "onRanges A (Event WaitNextOp rp act)"
  by (simp_all add: onRanges_def callRange_def)







subsection \<open>Actors that leave \<open>inactiveRanges\<close> alone\<close>






















section \<open>The unit runner\<close>

lemma selectOp_not_excluded:
  "selectOp cx loopTries s = (Returned op, s') \<Longrightarrow> op \<notin> excludedTypes"
proof (induction cx loopTries s rule: selectOp.induct)
  case (1 cx loopTries s)
  obtain op0 x' where r: "randomInt cx 0 OP_COUNT (sim s) = (op0, x')"
    by (cases "randomInt cx 0 OP_COUNT (sim s)")
  show ?case
  proof (cases "op0 \<notin> excludedTypes")
    case True
    with "1.prems" r show ?thesis
      by (subst (asm) selectOp.simps) simp
  next
    case False
    show ?thesis
    proof (cases "0 \<le> loopTries - 1")
      case True
      with "1.prems" r False
      have "selectOp cx (loopTries - 1) (s\<lparr>sim := x'\<rparr>) = (Returned op, s')"
        by (subst (asm) selectOp.simps) simp
      with "1.IH" [OF r [symmetric]] False True show ?thesis by simp
    next
      case F2: False
      with "1.prems" r False show ?thesis
        by (subst (asm) selectOp.simps) simp
    qed
  qed
qed

lemma dispatch_enabled_eq:
  "op \<notin> excludedTypes \<Longrightarrow> dispatchUnit cx n op krange = dispatchEnabled cx n op krange"
  by (auto simp: dispatchUnit_def dispatchEnabled_def excludedTypes_def)

lemma bindA_cong_returned:
  "(\<And>a s'. m s = (Returned a, s') \<Longrightarrow> f a s' = g a s') \<Longrightarrow> bindA m f s = bindA m g s"
  by (auto simp: bindA_def split: prod.splits outcome.splits)

lemma unitTests_enabled_only:
  "blobGranuleRangesUnitTests rounds cx n s = unitTestsEnabledOnly rounds cx n s"
proof (induction rounds arbitrary: s)
  case 0
  show ?case by simp
next
  case (Suc rounds)
  have body: "bindA (selectOp cx 1000) (\<lambda>op.
         bindA (dispatchUnit cx n op krange) (\<lambda>_.
         bindA (timerA (Delay 1)) (\<lambda>_. blobGranuleRangesUnitTests rounds cx n))) s1
       = bindA (selectOp cx 1000) (\<lambda>op.
         bindA (dispatchEnabled cx n op krange) (\<lambda>_.
         bindA (timerA (Delay 1)) (\<lambda>_. unitTestsEnabledOnly rounds cx n))) s1" for krange s1
  proof (rule bindA_cong_returned)
    fix op s2
    assume "selectOp cx 1000 s1 = (Returned op, s2)"
    then have "dispatchUnit cx n op krange = dispatchEnabled cx n op krange"
      by (intro dispatch_enabled_eq selectOp_not_excluded)
    moreover have "blobGranuleRangesUnitTests rounds cx n = unitTestsEnabledOnly rounds cx n"
      using Suc by (intro ext)
    ultimately show "bindA (dispatchUnit cx n op krange) (\<lambda>_.
         bindA (timerA (Delay 1)) (\<lambda>_. blobGranuleRangesUnitTests rounds cx n)) s2
       = bindA (dispatchEnabled cx n op krange) (\<lambda>_.
         bindA (timerA (Delay 1)) (\<lambda>_. unitTestsEnabledOnly rounds cx n)) s2"
      by simp
  qed
  have body_eq: "bindA (selectOp cx 1000) (\<lambda>op.
         bindA (dispatchUnit cx n op krange) (\<lambda>_.
         bindA (timerA (Delay 1)) (\<lambda>_. blobGranuleRangesUnitTests rounds cx n)))
       = bindA (selectOp cx 1000) (\<lambda>op.
         bindA (dispatchEnabled cx n op krange) (\<lambda>_.
         bindA (timerA (Delay 1)) (\<lambda>_. unitTestsEnabledOnly rounds cx n)))" for krange
    by (rule ext) (rule body)
  show ?case
    by (simp add: Let_def body_eq cong: if_cong)
qed

text \<open>
  Claim C8. In every round of the unit runner the selection loop returns a scenario that is
  none of RANGES_MISALIGNED, RE_BLOBBIFY and OP_COUNT, so the scenario dispatched is
  VERIFY_RANGE_UNIT, VERIFY_RANGE_GAP_UNIT or BLOBBIFY_IDEMPOTENT (a draw outside the
  enumeration, which \<open>randomInt(0, OP_COUNT)\<close> would have to return against its contract, ends
  in \<open>ASSERT(false)\<close> and runs no scenario). The two disabled branches of the dispatch are
  dead: the unit runner behaves exactly as the runner without them, on every state, for
  every environment and every number of rounds.
\<close>

theorem unit_runner_dispatches_enabled_only:
  assumes "selectOp cx loopTries s = (Returned op, s')"
  shows "op \<noteq> RANGES_MISALIGNED \<and> op \<noteq> RE_BLOBBIFY \<and> op \<noteq> OP_COUNT
         \<and> dispatchUnit cx n op krange
             = (if op = VERIFY_RANGE_UNIT then verifyRangeUnit cx n krange
                else if op = VERIFY_RANGE_GAP_UNIT then verifyRangeGapUnit cx n krange
                else if op = BLOBBIFY_IDEMPOTENT then blobbifyIdempotentUnit cx n krange
                else ASSERT False)
         \<and> blobGranuleRangesUnitTests rounds cx n s0 = unitTestsEnabledOnly rounds cx n s0"
proof -
  have ex: "op \<notin> excludedTypes" using assms by (rule selectOp_not_excluded)
  then have "op \<noteq> RANGES_MISALIGNED \<and> op \<noteq> RE_BLOBBIFY \<and> op \<noteq> OP_COUNT"
    by (auto simp: excludedTypes_def)
  moreover have "dispatchUnit cx n op krange
             = (if op = VERIFY_RANGE_UNIT then verifyRangeUnit cx n krange
                else if op = VERIFY_RANGE_GAP_UNIT then verifyRangeGapUnit cx n krange
                else if op = BLOBBIFY_IDEMPOTENT then blobbifyIdempotentUnit cx n krange
                else ASSERT False)"
    using dispatch_enabled_eq [OF ex, of cx n krange] by (simp only: dispatchEnabled_def)
  ultimately show ?thesis using unitTests_enabled_only by blast
qed

text \<open>
  The draws 2 (RANGES_MISALIGNED), 4 (RE_BLOBBIFY) and 3: the first two are drawn again, the
  third is returned and BLOBBIFY_IDEMPOTENT is dispatched.
\<close>

theorem unit_runner_dispatches_enabled_only_witness:
  "selectOp plainEnv 1000 ((workloadOf 0 1 10 [50, 3, 500])\<lparr>sim := [2, 4, 3]\<rparr>)
     = (Returned BLOBBIFY_IDEMPOTENT, (workloadOf 0 1 10 [50, 3, 500])\<lparr>sim := []\<rparr>)
   \<and> dispatchUnit plainEnv 1 BLOBBIFY_IDEMPOTENT unitRange
     = (blobbifyIdempotentUnit plainEnv 1 unitRange :: (int list, unit) actor)"
proof -
  let ?s = "(workloadOf 0 1 10 [50, 3, 500])\<lparr>sim := [2, 4, 3]\<rparr>"
  let ?s' = "(workloadOf 0 1 10 [50, 3, 500])\<lparr>sim := []\<rparr>"
  have sel: "selectOp plainEnv 1000 ?s = (Returned BLOBBIFY_IDEMPOTENT, ?s')"
    by (simp add: selectOp.simps plainEnv_def scriptEnv_def excludedTypes_def
        VERIFY_RANGE_UNIT_def VERIFY_RANGE_GAP_UNIT_def RANGES_MISALIGNED_def
        BLOBBIFY_IDEMPOTENT_def RE_BLOBBIFY_def OP_COUNT_def)
  from unit_runner_dispatches_enabled_only [OF sel, of 1 unitRange 0 ?s]
  have "dispatchUnit plainEnv 1 BLOBBIFY_IDEMPOTENT unitRange
     = (blobbifyIdempotentUnit plainEnv 1 unitRange :: (int list, unit) actor)"
    by (simp add: VERIFY_RANGE_UNIT_def VERIFY_RANGE_GAP_UNIT_def BLOBBIFY_IDEMPOTENT_def)
  with sel show ?thesis by simp
qed


section \<open>The sequential keys of two clients\<close>

lemma toHex_small: "n < 16 \<Longrightarrow> toHex n = [hexDigit n]"
  by (subst toHex.simps) simp

lemma append_less_same_length:
  "length xs = length ys \<Longrightarrow> xs < ys \<Longrightarrow> xs @ as < ys @ bs" for xs :: "'a::linorder list"
  by (induction xs ys rule: list_induct2) auto

lemma append_less_same_prefix:
  "xs @ as < xs @ bs \<longleftrightarrow> as < bs" for xs :: "'a::linorder list"
  by (induction xs) auto

lemma lt16_cases:
  "d < 16 \<Longrightarrow> d = 0 \<or> d = 1 \<or> d = 2 \<or> d = 3 \<or> d = 4 \<or> d = 5 \<or> d = 6 \<or> d = 7 \<or> d = 8
     \<or> d = 9 \<or> d = 10 \<or> d = 11 \<or> d = 12 \<or> d = 13 \<or> d = 14 \<or> d = (15::nat)"
  by arith

lemma hexDigit_code:
  "d < 16 \<Longrightarrow> (of_char (hexDigit d) :: nat) = (if d < 10 then 48 + d else 87 + d)"
  by (drule lt16_cases) (auto simp: hexDigit_def)

lemma hexDigit_mono: "a < b \<Longrightarrow> b < 16 \<Longrightarrow> hexDigit a < hexDigit b"
  by (simp add: less_char_def hexDigit_code)

lemma toHex_big: "16 \<le> n \<Longrightarrow> toHex n = toHex (n div 16) @ [hexDigit (n mod 16)]"
  by (subst toHex.simps) simp

lemma length_toHex: "1 \<le> w \<Longrightarrow> n < 16 ^ w \<Longrightarrow> length (toHex n) \<le> w"
proof (induction w arbitrary: n)
  case 0
  then show ?case by simp
next
  case (Suc w)
  show ?case
  proof (cases "n < 16")
    case True
    then show ?thesis by (simp add: toHex_small)
  next
    case False
    then have w: "1 \<le> w" using Suc.prems by (cases w) auto
    have "n div 16 < 16 ^ w" using Suc.prems by (simp add: less_mult_imp_div_less mult.commute)
    from Suc.IH [OF w this] False show ?thesis by (simp add: toHex_big)
  qed
qed

lemma format_0x_step:
  assumes "1 \<le> w" "n < 16 ^ Suc w"
  shows "format_0x (Suc w) n = format_0x w (n div 16) @ [hexDigit (n mod 16)]"
proof (cases "n < 16")
  case True
  then have "format_0x w (n div 16) = replicate w (CHR ''0'')"
    using assms(1) by (cases w) (simp_all add: format_0x_def toHex_small hexDigit_def replicate_append_same)
  with True show ?thesis by (simp add: format_0x_def toHex_small)
next
  case False
  have q: "n div 16 < 16 ^ w" using assms(2) by (simp add: less_mult_imp_div_less mult.commute)
  have "length (toHex (n div 16)) \<le> w" by (rule length_toHex [OF assms(1) q])
  with False show ?thesis by (simp add: format_0x_def toHex_big Suc_diff_le)
qed

lemma format_0x_1: "n < 16 \<Longrightarrow> format_0x (Suc 0) n = [hexDigit n]"
  by (simp add: format_0x_def toHex_small)

lemma length_format_0x: "1 \<le> w \<Longrightarrow> n < 16 ^ w \<Longrightarrow> length (format_0x w n) = w"
  using length_toHex [of w n] by (simp add: format_0x_def)

lemma format_0x_mono:
  "1 \<le> w \<Longrightarrow> m < n \<Longrightarrow> n < 16 ^ w \<Longrightarrow> format_0x w m < format_0x w n"
proof (induction w arbitrary: m n)
  case 0
  then show ?case by simp
next
  case (Suc w)
  show ?case
  proof (cases "w = 0")
    case True
    with Suc.prems show ?thesis by (simp add: format_0x_1 hexDigit_mono)
  next
    case False
    then have w: "1 \<le> w" by simp
    have n: "n < 16 ^ Suc w" and m: "m < 16 ^ Suc w" using Suc.prems by auto
    have qn: "n div 16 < 16 ^ w" using n by (simp add: less_mult_imp_div_less mult.commute)
    have qm: "m div 16 < 16 ^ w" using m by (simp add: less_mult_imp_div_less mult.commute)
    have le: "m div 16 \<le> n div 16" using Suc.prems(2) by (simp add: div_le_mono)
    show ?thesis
    proof (cases "m div 16 < n div 16")
      case True
      have "format_0x w (m div 16) < format_0x w (n div 16)"
        by (rule Suc.IH [OF w True qn])
      moreover have "length (format_0x w (m div 16)) = length (format_0x w (n div 16))"
        using w qm qn by (simp add: length_format_0x)
      ultimately show ?thesis
        by (simp add: format_0x_step [OF w n] format_0x_step [OF w m] append_less_same_length)
    next
      case False
      with le have eq: "m div 16 = n div 16" by simp
      have "m mod 16 < n mod 16"
        using Suc.prems(2) eq by (metis div_mult_mod_eq nat_add_left_cancel_less)
      then have "hexDigit (m mod 16) < hexDigit (n mod 16)"
        by (intro hexDigit_mono) auto
      then show ?thesis
        by (simp add: format_0x_step [OF w n] format_0x_step [OF w m] eq append_less_same_prefix)
    qed
  qed
qed

lemma strinc_only_key: "k \<le> x \<Longrightarrow> x < strinc k \<Longrightarrow> x = k"
  unfolding strinc_def
proof (induction k arbitrary: x)
  case Nil
  then show ?case by (cases x) (auto simp: less_char_def)
next
  case (Cons a k)
  then show ?case by (cases x) auto
qed

lemma keysOf_keyRangeOf: "keysOf (keyRangeOf p k) = {p @ k}"
proof -
  have "p @ k < strinc (p @ k)"
    by (simp add: strinc_def append_less_same_prefix [of "p @ k" "[]", simplified])
  then show ?thesis
    by (auto simp: keysOf_def keyRangeOf_def dest: strinc_only_key)
qed

lemma rangesOverlap_iff: "rangesOverlap (keyRangeOf p k) (keyRangeOf p' k') \<longleftrightarrow> p @ k = p' @ k'"
  by (auto simp: rangesOverlap_def keysOf_keyRangeOf)


text \<open>
  The keys of a sequential client, from a counter \<open>c\<close> with the gap \<open>g\<close>: the numbers
  \<open>c + g\<close>, \<open>c + 2 * g\<close> and so on, as long as the counter fits an \<open>int\<close>; all \<open>n\<close> of them if
  the last one fits.
\<close>

lemma generatedKeys_form:
  assumes "sequential s" "sint (nextKey s) = int c" "sequentialGap s = int g"
  shows "\<exists>m\<le>n. generatedKeys cx n s = map (\<lambda>i. format_0x 8 (c + g * Suc i)) [0..<m]
            \<and> int (c + g * m) \<le> 2147483647
            \<and> (int (c + g * n) \<le> 2147483647 \<longrightarrow> m = n)"
  using assms
proof (induction n arbitrary: s c)
  case 0
  have "sint (nextKey s) < 2 ^ 31" using sint_lt [of "nextKey s"] by simp
  then show ?case using "0.prems" by simp
next
  case (Suc n)
  show ?case
  proof (cases "intOverflows (sint (nextKey s) + sequentialGap s)")
    case True
    have c: "int c \<le> 2147483647"
      using sint_lt [of "nextKey s"] Suc.prems(2) by simp
    have big: "2147483647 < int c + int g"
      using True Suc.prems by (simp add: intOverflows_def)
    have "g \<le> g * Suc n" by simp
    then have "2147483647 < int (c + g * Suc n)" using big by linarith
    moreover have "generatedKeys cx (Suc n) s = []"
      using True Suc.prems(1) by (simp add: newKey_overflow)
    ultimately show ?thesis using c by (intro exI [of _ 0]) simp
  next
    case False
    let ?n = "sint (nextKey s) + sequentialGap s"
    let ?s' = "s\<lparr>nextKey := word_of_int ?n\<rparr>"
    have n: "?n = int (c + g)" using Suc.prems by simp
    have u: "unat (word_of_int ?n :: 32 word) = c + g"
      using unat_fits [OF _ False] n by simp
    have nk: "newKey cx s = (Returned (format_0x 8 (c + g)), ?s')"
      by (simp only: newKey_sequential [OF Suc.prems(1) False] u)
    have step: "generatedKeys cx (Suc n) s = format_0x 8 (c + g) # generatedKeys cx n ?s'"
      by (simp add: nk)
    have s1: "sequential ?s'" using Suc.prems(1) by simp
    have s2: "sint (nextKey ?s') = int (c + g)" using sint_fits [OF False] n by simp
    have s3: "sequentialGap ?s' = int g" using Suc.prems(3) by simp
    from Suc.IH [OF s1 s2 s3] obtain m where m: "m \<le> n"
      "generatedKeys cx n ?s' = map (\<lambda>i. format_0x 8 (c + g + g * Suc i)) [0..<m]"
      "int (c + g + g * m) \<le> 2147483647"
      "int (c + g + g * n) \<le> 2147483647 \<longrightarrow> m = n"
      by blast
    have l: "map (\<lambda>i. format_0x 8 (c + g * Suc i)) [0..<Suc m]
               = format_0x 8 (c + g) # map (\<lambda>i. format_0x 8 (c + g + g * Suc i)) [0..<m]"
      by (simp add: upt_rec [of 0 "Suc m"] map_Suc_upt [symmetric] add.assoc del: upt_Suc)
    have "generatedKeys cx (Suc n) s = map (\<lambda>i. format_0x 8 (c + g * Suc i)) [0..<Suc m]"
      unfolding l step m(2) by (rule refl)
    moreover have "int (c + g * Suc m) \<le> 2147483647" using m(3) by (simp add: add.assoc)
    moreover have "int (c + g * Suc n) \<le> 2147483647 \<longrightarrow> Suc m = Suc n"
      using m(4) by (simp add: add.assoc)
    ultimately show ?thesis using m(1) by (intro exI [of _ "Suc m"]) simp
  qed
qed

lemma format_8_mono: "a < b \<Longrightarrow> b < 2 ^ 32 \<Longrightarrow> format_0x 8 a < format_0x 8 b"
  by (rule format_0x_mono) simp_all

lemma length_format_8: "a < 2 ^ 32 \<Longrightarrow> length (format_0x 8 a) = 8"
  by (rule length_format_0x) simp_all

lemma gap_as_nat:
  assumes "newWorkload cx wcx options x0 = Inr w"
  shows "\<exists>g. sequentialGap w = int g \<and> g \<le> 2
           \<and> (0 \<le> sint (sharedRandomNumber wcx) \<longrightarrow> 1 \<le> g)"
proof -
  let ?g = "sequentialGap w"
  have r: "0 \<le> ?g \<and> ?g \<le> 2"
    using newWorkload_fields [OF assms] deriveSequentialGap_range by simp
  have p: "?g = 1 \<or> ?g = 2" if "0 \<le> sint (sharedRandomNumber wcx)"
    using newWorkload_fields [OF assms] deriveSequentialGap_nonneg [OF that] by simp
  have "?g = int (nat ?g)" "nat ?g \<le> 2" using r by auto
  moreover have "0 \<le> sint (sharedRandomNumber wcx) \<longrightarrow> 1 \<le> nat ?g"
    using p by auto
  ultimately show ?thesis by blast
qed

lemma sorted_keys:
  assumes "1 \<le> g" "c + g * m < 2 ^ 32"
  shows "sorted_wrt (<) (map (\<lambda>i. format_0x 8 (c + g * Suc i)) [0..<m])"
  unfolding sorted_wrt_iff_nth_less
proof (intro allI impI)
  fix i j assume ij: "i < j" "j < length (map (\<lambda>i. format_0x 8 (c + g * Suc i)) [0..<m])"
  then have j: "j < m" and i: "i < m" by auto
  have "g * Suc j \<le> g * m" using j by (intro mult_le_mono2) simp
  then have b: "c + g * Suc j < 2 ^ 32" using assms(2) by simp
  have "c + g * Suc i < c + g * Suc j" using ij(1) assms(1) by simp
  then have "format_0x 8 (c + g * Suc i) < format_0x 8 (c + g * Suc j)"
    using b by (rule format_8_mono)
  then show "map (\<lambda>i. format_0x 8 (c + g * Suc i)) [0..<m] ! i
               < map (\<lambda>i. format_0x 8 (c + g * Suc i)) [0..<m] ! j"
    using i j by simp
qed

text \<open>
  Claim C4, as amended. Two clients built by the constructor with \<open>clientId\<close> 0 and 1, both
  in sequential mode: client \<open>c\<close> starts its counter at \<open>10000000 \<times> c\<close>. As long as client 0
  generates fewer keys than carry its counter to 10,000,000 (it then gets every key it asks
  for), every key of client 0 is below every key of client 1 in the lexicographic order, and
  no range built from a key of client 0 overlaps a range built from a key of client 1
  (whatever prefixes of equal length, such as \<open>R_\<close> and \<open>U_\<close>, the consumers put before the
  keys). The keys of a client strictly increase when its seed is not negative; with a negative
  seed the gap can be 0 and the same key comes again. The keys of client 1 are those it
  generates while its counter fits an \<open>int\<close>: all of them when the last counter fits.
\<close>

theorem sequential_clients_disjoint:
  assumes w0: "newWorkload cx0 wcx0 options0 x0 = Inr w0"
      and w1: "newWorkload cx1 wcx1 options1 x1 = Inr w1"
      and id0: "wcx_clientId wcx0 = 0"
      and id1: "wcx_clientId wcx1 = 1"
      and seq0: "sequential w0"
      and seq1: "sequential w1"
      and few0: "int n0 * sequentialGap w0 < 10000000"
  shows "length (generatedKeys cx0 n0 w0) = n0
         \<and> (10000000 + int n1 * sequentialGap w1 \<le> 2147483647
              \<longrightarrow> length (generatedKeys cx1 n1 w1) = n1)
         \<and> (\<forall>k0 \<in> set (generatedKeys cx0 n0 w0). \<forall>k1 \<in> set (generatedKeys cx1 n1 w1).
               k0 < k1
               \<and> (\<forall>p0 p1. length p0 = length p1
                     \<longrightarrow> \<not> rangesOverlap (keyRangeOf p0 k0) (keyRangeOf p1 k1)))
         \<and> (0 \<le> sint (sharedRandomNumber wcx0) \<longrightarrow> sorted_wrt (<) (generatedKeys cx0 n0 w0))
         \<and> (0 \<le> sint (sharedRandomNumber wcx1) \<longrightarrow> sorted_wrt (<) (generatedKeys cx1 n1 w1))"
proof -
  obtain g0 where g0: "sequentialGap w0 = int g0" "g0 \<le> 2"
      "0 \<le> sint (sharedRandomNumber wcx0) \<longrightarrow> 1 \<le> g0"
    using gap_as_nat [OF w0] by blast
  obtain g1 where g1: "sequentialGap w1 = int g1" "g1 \<le> 2"
      "0 \<le> sint (sharedRandomNumber wcx1) \<longrightarrow> 1 \<le> g1"
    using gap_as_nat [OF w1] by blast
  have b0: "g0 * n0 < 10000000"
  proof -
    have "int (g0 * n0) < int 10000000" using few0 g0(1) by (simp add: mult.commute)
    then show ?thesis by linarith
  qed
  have nk0: "sint (nextKey w0) = int 0"
    using newWorkload_fields [OF w0] id0 by simp
  have nk1: "sint (nextKey w1) = int 10000000"
    using newWorkload_fields [OF w1] id1 by simp
  from generatedKeys_form [OF seq0 nk0 g0(1), of n0 cx0]
  obtain m0 where m0: "m0 \<le> n0"
      "generatedKeys cx0 n0 w0 = map (\<lambda>i. format_0x 8 (0 + g0 * Suc i)) [0..<m0]"
      "int (0 + g0 * n0) \<le> 2147483647 \<longrightarrow> m0 = n0"
    by blast
  from generatedKeys_form [OF seq1 nk1 g1(1), of n1 cx1]
  obtain m1 where m1: "m1 \<le> n1"
      "generatedKeys cx1 n1 w1 = map (\<lambda>i. format_0x 8 (10000000 + g1 * Suc i)) [0..<m1]"
      "int (10000000 + g1 * m1) \<le> 2147483647"
      "int (10000000 + g1 * n1) \<le> 2147483647 \<longrightarrow> m1 = n1"
    by blast
  have all0: "m0 = n0"
  proof -
    have "int (0 + g0 * n0) \<le> 2147483647" using b0 by linarith
    with m0(3) show ?thesis by blast
  qed
  have len0: "length (generatedKeys cx0 n0 w0) = n0" unfolding m0(2) all0 by simp
  have len1: "length (generatedKeys cx1 n1 w1) = n1"
    if "10000000 + int n1 * sequentialGap w1 \<le> 2147483647"
  proof -
    have "int (10000000 + g1 * n1) \<le> 2147483647" using that g1(1) by (simp add: mult.commute)
    with m1(4) show ?thesis unfolding m1(2) by simp
  qed
  have top1: "10000000 + g1 * m1 < 2 ^ 32"
  proof -
    have "10000000 + g1 * m1 \<le> 2147483647" using m1(3) by linarith
    then show ?thesis by simp
  qed
  have in0: "g0 * Suc i < 10000000" if "i < m0" for i
  proof -
    have "g0 * Suc i \<le> g0 * n0" using that all0 by (intro mult_le_mono2) simp
    with b0 show ?thesis by simp
  qed
  have in1: "10000000 + g1 * Suc i < 2 ^ 32" if "i < m1" for i
  proof -
    have "g1 * Suc i \<le> g1 * m1" using that by (intro mult_le_mono2) simp
    with top1 show ?thesis by simp
  qed
  have s0: "sorted_wrt (<) (generatedKeys cx0 n0 w0)" if "0 \<le> sint (sharedRandomNumber wcx0)"
    unfolding m0(2) all0 using g0(3) that b0 by (intro sorted_keys) simp_all
  have s1: "sorted_wrt (<) (generatedKeys cx1 n1 w1)" if "0 \<le> sint (sharedRandomNumber wcx1)"
    unfolding m1(2) using g1(3) that top1 by (intro sorted_keys) simp_all
  have cross: "k0 < k1 \<and> (\<forall>p0 p1. length p0 = length p1
                     \<longrightarrow> \<not> rangesOverlap (keyRangeOf p0 k0) (keyRangeOf p1 k1))"
    if k0: "k0 \<in> set (generatedKeys cx0 n0 w0)" and k1: "k1 \<in> set (generatedKeys cx1 n1 w1)"
    for k0 k1
  proof -
    from k0 obtain i where i: "i < m0" "k0 = format_0x 8 (g0 * Suc i)"
      unfolding m0(2) by auto
    from k1 obtain j where j: "j < m1" "k1 = format_0x 8 (10000000 + g1 * Suc j)"
      unfolding m1(2) by auto
    have "g0 * Suc i < 10000000 + g1 * Suc j" using in0 [OF i(1)] by simp
    then have lt: "k0 < k1"
      unfolding i(2) j(2) using in1 [OF j(1)] by (rule format_8_mono)
    have "\<not> rangesOverlap (keyRangeOf p0 k0) (keyRangeOf p1 k1)"
      if "length p0 = length p1" for p0 p1
    proof
      assume "rangesOverlap (keyRangeOf p0 k0) (keyRangeOf p1 k1)"
      then have "p0 @ k0 = p1 @ k1" by (simp add: rangesOverlap_iff)
      with that have "k0 = k1" by simp
      with lt show False by simp
    qed
    with lt show ?thesis by blast
  qed
  from len0 len1 s0 s1 cross show ?thesis by blast
qed

lemma replicate_numeral: "replicate (numeral k) x = x # replicate (pred_numeral k) x"
  by (simp add: numeral_eq_Suc)

lemma format_8_values:
  "format_0x 8 0 = ''00000000''"
  "format_0x 8 (Suc 0) = ''00000001''" "format_0x 8 (Suc (Suc 0)) = ''00000002''"
  "format_0x 8 10000001 = ''00989681''" "format_0x 8 10000002 = ''00989682''"
  by (simp_all add: format_0x_def toHex.simps hexDigit_def replicate_numeral)

lemma two_keys:
  assumes "sequential s" "sint (nextKey s) = int c" "sequentialGap s = int g"
      and "int (c + g * 2) \<le> 2147483647"
  shows "generatedKeys cx 2 s = [format_0x 8 (c + g), format_0x 8 (c + g + g)]"
proof -
  have u: "[0..<2] = [0, Suc 0]" by (simp add: numeral_2_eq_2)
  from generatedKeys_form [OF assms(1-3), of 2 cx] assms(4)
  have "generatedKeys cx 2 s = map (\<lambda>i. format_0x 8 (c + g * Suc i)) [0..<2]" by auto
  then show ?thesis by (simp add: u add.assoc)
qed

lemma keys_client0:
  "generatedKeys plainEnv 2 (workloadOf 0 2 10 [50, 2, 500]) = [''00000001'', ''00000002'']"
  using two_keys [of "workloadOf 0 2 10 [50, 2, 500]" 0 1 plainEnv]
  by (simp add: workloadOf_eq format_8_values)

lemma keys_client1:
  "generatedKeys plainEnv 2 (workloadOf 1 2 10 [50, 2, 500]) = [''00989681'', ''00989682'']"
  using two_keys [of "workloadOf 1 2 10 [50, 2, 500]" 10000000 1 plainEnv]
  by (simp add: workloadOf_eq format_8_values)

lemma keys_repeat:
  "generatedKeys plainEnv 2 (workloadOf 0 2 (- 30) [50, 2, 500]) = [''00000000'', ''00000000'']"
  using two_keys [of "workloadOf 0 2 (- 30) [50, 2, 500]" 0 0 plainEnv]
  by (simp add: workloadOf_eq format_8_values)

text \<open>Two keys of each client with the seed 10 (gap 1).\<close>

theorem sequential_clients_disjoint_witness:
  "newWorkload plainEnv
      \<lparr> wcx_clientId = 0, wcx_clientCount = 2, sharedRandomNumber = 10 \<rparr>
      \<lparr> opt_testDuration = None, opt_opsPerSecond = None \<rparr> [50, 2, 500]
     = Inr (workloadOf 0 2 10 [50, 2, 500])
   \<and> newWorkload plainEnv
      \<lparr> wcx_clientId = 1, wcx_clientCount = 2, sharedRandomNumber = 10 \<rparr>
      \<lparr> opt_testDuration = None, opt_opsPerSecond = None \<rparr> [50, 2, 500]
     = Inr (workloadOf 1 2 10 [50, 2, 500])
   \<and> sequential (workloadOf 0 2 10 [50, 2, 500])
   \<and> sequential (workloadOf 1 2 10 [50, 2, 500])
   \<and> int 2 * sequentialGap (workloadOf 0 2 10 [50, 2, 500]) < 10000000
   \<and> 10000000 + int 2 * sequentialGap (workloadOf 1 2 10 [50, 2, 500]) \<le> 2147483647
   \<and> (0::int) \<le> sint (10 :: 64 word)
   \<and> length (generatedKeys plainEnv 2 (workloadOf 0 2 10 [50, 2, 500])) = 2
   \<and> length (generatedKeys plainEnv 2 (workloadOf 1 2 10 [50, 2, 500])) = 2
   \<and> generatedKeys plainEnv 2 (workloadOf 0 2 10 [50, 2, 500]) = [''00000001'', ''00000002'']
   \<and> generatedKeys plainEnv 2 (workloadOf 1 2 10 [50, 2, 500]) = [''00989681'', ''00989682'']
   \<and> sorted_wrt (<) [''00000001'', ''00000002'']
   \<and> sorted_wrt (<) [''00989681'', ''00989682'']
   \<and> ''00000002'' < ''00989681''
   \<and> \<not> rangesOverlap (keyRangeOf ''R_'' ''00000002'') (keyRangeOf ''U_'' ''00989681'')"
proof -
  let ?wcx0 = "\<lparr> wcx_clientId = 0, wcx_clientCount = 2, sharedRandomNumber = (10 :: 64 word) \<rparr>"
  let ?wcx1 = "\<lparr> wcx_clientId = 1, wcx_clientCount = 2, sharedRandomNumber = (10 :: 64 word) \<rparr>"
  let ?opts = "\<lparr> opt_testDuration = None, opt_opsPerSecond = None \<rparr>"
  let ?w0 = "workloadOf 0 2 10 [50, 2, 500]"
  let ?w1 = "workloadOf 1 2 10 [50, 2, 500]"
  have h0: "newWorkload plainEnv ?wcx0 ?opts [50, 2, 500] = Inr ?w0"
    by (simp add: newWorkload_plain workloadOf_eq)
  have h1: "newWorkload plainEnv ?wcx1 ?opts [50, 2, 500] = Inr ?w1"
    by (simp add: newWorkload_plain workloadOf_eq)
  have i0: "wcx_clientId ?wcx0 = 0" and i1: "wcx_clientId ?wcx1 = 1" by simp_all
  have q0: "sequential ?w0" and q1: "sequential ?w1" by (simp_all add: workloadOf_eq)
  have d0: "0 \<le> sint (sharedRandomNumber ?wcx0)" and d1: "0 \<le> sint (sharedRandomNumber ?wcx1)"
    by simp_all
  have f0: "int 2 * sequentialGap ?w0 < 10000000" by (simp add: workloadOf_eq)
  have f1: "10000000 + int 2 * sequentialGap ?w1 \<le> 2147483647" by (simp add: workloadOf_eq)
  have sd: "(0::int) \<le> sint (10 :: 64 word)" by simp
  note T = sequential_clients_disjoint [OF h0 h1 i0 i1 q0 q1 f0, where ?n1.0 = 2]
  have l0: "length (generatedKeys plainEnv 2 ?w0) = 2" using T by blast
  have l1: "length (generatedKeys plainEnv 2 ?w1) = 2" using T f1 by blast
  have s0: "sorted_wrt (<) [''00000001'', ''00000002'']"
    using T d0 unfolding keys_client0 by blast
  have s1: "sorted_wrt (<) [''00989681'', ''00989682'']"
    using T d1 unfolding keys_client1 by blast
  have c: "''00000002'' < ''00989681''
       \<and> \<not> rangesOverlap (keyRangeOf ''R_'' ''00000002'') (keyRangeOf ''U_'' ''00989681'')"
    using T unfolding keys_client0 keys_client1 by simp
  from h0 h1 q0 q1 f0 f1 sd l0 l1 keys_client0 keys_client1 s0 s1 c show ?thesis by blast
qed

text \<open>
  The claim as stated fails on the seed \<open>-30\<close>: the client is sequential with the gap 0, so
  its second key is its first key again and the keys do not strictly increase.
\<close>

theorem sequential_keys_repeat:
  "sequential (workloadOf 0 2 (- 30) [50, 2, 500])
   \<and> generatedKeys plainEnv 2 (workloadOf 0 2 (- 30) [50, 2, 500]) = [''00000000'', ''00000000'']
   \<and> \<not> sorted_wrt (<) (generatedKeys plainEnv 2 (workloadOf 0 2 (- 30) [50, 2, 500]))"
  unfolding keys_repeat by (simp add: workloadOf_eq)


section \<open>The oracle of the driver\<close>


















lemma touches_simps [simp]:
  "touches r (PurgeBlobGranules r' v t f) = (r' = r)"
  "touches r (UnblobbifyRange r') = (r' = r)"
  "\<not> touches r (BlobbifyRange r')"
  "\<not> touches r (WaitPurgeGranulesComplete k)"
  "\<not> touches r (ChangeConfig c b)"
  "\<not> touches r WaitNextOp"
  by (simp_all add: touches_def)









lemma duringUnregister_simps [simp]:
  "duringUnregister r act (Event (PurgeBlobGranules r' v t f) rp a) = (a = act \<and> r' = r \<and> f)"
  "duringUnregister r act (Event (WaitPurgeGranulesComplete k) rp a) = (a = act)"
  "duringUnregister r act (Event (UnblobbifyRange r') rp a) = (a = act \<and> r' = r)"
  by (auto simp: duringUnregister_def)










subsection \<open>A sequential driver blobbifies no range twice\<close>


















subsection \<open>The claim\<close>










section \<open>The scenarios\<close>

lemma pushBoundaries_eq:
  "pushBoundaries b rangeCount i bs =
     bs @ map (\<lambda>j. withSuffix b (format_0x 4 (nat j))) [i..rangeCount - 2]"
proof (induction b rangeCount i bs rule: pushBoundaries.induct)
  case (1 b rangeCount i bs)
  show ?case
  proof (cases "i < rangeCount - 1")
    case True
    then have "[i..rangeCount - 2] = i # [i + 1..rangeCount - 2]"
      by (simp add: upto_rec1)
    with True 1 show ?thesis
      by (subst pushBoundaries.simps) simp
  next
    case False
    then show ?thesis by (subst pushBoundaries.simps) simp
  qed
qed

lemma gapBoundaries_eq:
  "gapBoundaries krange rangeCount =
     range_begin krange # map (\<lambda>j. withSuffix (range_begin krange) (format_0x 4 (nat j))) [0..rangeCount - 2]
       @ [range_end krange]"
  by (simp add: gapBoundaries_def pushBoundaries_eq)

lemma gap_len: "1 \<le> rangeCount \<Longrightarrow> length (gapBoundaries krange rangeCount) = nat rangeCount + 1"
  by (simp add: gapBoundaries_eq)

lemma gap_nth:
  assumes "0 \<le> i" "i < rangeCount - 1"
  shows "gapBoundaries krange rangeCount ! (nat i + 1) = withSuffix (range_begin krange) (format_0x 4 (nat i))"
proof -
  have "nat i < length [0..rangeCount - 2]" using assms by simp
  moreover have "[0..rangeCount - 2] ! nat i = i" using assms by simp
  ultimately show ?thesis
    by (simp add: gapBoundaries_eq nth_append)
qed

lemma gap_fail:
  "rangeCount < 1 \<Longrightarrow> verifyRangeGapRest cx n krange rangeCount s = (Thrown internal_error, s)"
  by (simp add: verifyRangeGapRest_def gapBoundaries_eq Let_def bindA_def ASSERT_def throwA_def)

lemma format4_small: "n < 16 \<Longrightarrow> format_0x 4 n = ''000'' @ [hexDigit n]"
  by (simp add: format_0x_def toHex_small numeral_3_eq_3)

lemma gapBoundaries_9:
  "gapBoundaries (KeyRangeRef b e) 9 = [b, b @ ''0000'', b @ ''0001'', b @ ''0002'',
     b @ ''0003'', b @ ''0004'', b @ ''0005'', b @ ''0006'', b @ ''0007'', e]"
  by (simp add: gapBoundaries_def pushBoundaries.simps format4_small hexDigit_def withSuffix_def)

text \<open>
  Claim C5, as amended. In every execution of VERIFY_RANGE_GAP, \<open>rangeCount\<close> is one more than
  what \<open>randomExp(3, 6)\<close> returned; the scenario bounds it in no other way. Whenever
  \<open>rangeCount\<close> is at least 1, the boundary list has exactly \<open>rangeCount + 1\<close> entries, begins
  at the begin of the range and ends at its end, with the begin followed by
  \<open>format("%04x", i)\<close> at position \<open>i + 1\<close>; for a \<open>rangeCount\<close> below 1 the \<open>ASSERT\<close> on the
  size of the list fails before any call.
\<close>

theorem gap_boundaries_of_rangeCount:
  "verifyRangeGapUnit cx n krange
     = bindA (randomA (randomExp cx 3 6)) (\<lambda>e. verifyRangeGapRest cx n krange (e + 1))
   \<and> (1 \<le> rangeCount \<longrightarrow>
        length (gapBoundaries krange rangeCount) = nat rangeCount + 1
        \<and> hd (gapBoundaries krange rangeCount) = range_begin krange
        \<and> last (gapBoundaries krange rangeCount) = range_end krange
        \<and> (\<forall>i. 0 \<le> i \<and> i < rangeCount - 1 \<longrightarrow>
              gapBoundaries krange rangeCount ! (nat i + 1)
                = withSuffix (range_begin krange) (format_0x 4 (nat i))))
   \<and> (rangeCount < 1 \<longrightarrow>
        verifyRangeGapRest cx n krange rangeCount s = (Thrown internal_error, s))"
proof (intro conjI impI allI)
  show "verifyRangeGapUnit cx n krange
     = bindA (randomA (randomExp cx 3 6)) (\<lambda>e. verifyRangeGapRest cx n krange (e + 1))"
    by (simp add: verifyRangeGapUnit_def)
  show "length (gapBoundaries krange rangeCount) = nat rangeCount + 1" if "1 \<le> rangeCount"
    using that by (rule gap_len)
  show "hd (gapBoundaries krange rangeCount) = range_begin krange"
    by (simp add: gapBoundaries_eq)
  show "last (gapBoundaries krange rangeCount) = range_end krange"
    by (simp add: gapBoundaries_eq)
  show "gapBoundaries krange rangeCount ! (nat i + 1)
          = withSuffix (range_begin krange) (format_0x 4 (nat i))"
    if "0 \<le> i \<and> i < rangeCount - 1" for i
    using that by (intro gap_nth) auto
  show "verifyRangeGapRest cx n krange rangeCount s = (Thrown internal_error, s)"
    if "rangeCount < 1"
    using that by (rule gap_fail)
qed

text \<open>Nine pieces: ten boundaries; no piece: the \<open>ASSERT\<close> fails.\<close>

theorem gap_boundaries_of_rangeCount_witness:
  "(1::int) \<le> 9
   \<and> gapBoundaries unitRange 9
       = [''U_00000001'', ''U_000000010000'', ''U_000000010001'', ''U_000000010002'',
          ''U_000000010003'', ''U_000000010004'', ''U_000000010005'', ''U_000000010006'',
          ''U_000000010007'', strinc ''U_00000001'']
   \<and> length (gapBoundaries unitRange 9) = 10
   \<and> hd (gapBoundaries unitRange 9) = range_begin unitRange
   \<and> last (gapBoundaries unitRange 9) = range_end unitRange
   \<and> verifyRangeGapRest plainEnv 1 unitRange 0 (workloadOf 0 1 10 [50, 3, 500])
       = (Thrown internal_error, workloadOf 0 1 10 [50, 3, 500])"
proof -
  have g: "gapBoundaries unitRange 9
       = [''U_00000001'', ''U_000000010000'', ''U_000000010001'', ''U_000000010002'',
          ''U_000000010003'', ''U_000000010004'', ''U_000000010005'', ''U_000000010006'',
          ''U_000000010007'', strinc ''U_00000001'']"
    by (simp add: unitRange_def keyRangeOf_def gapBoundaries_9)
  from gap_boundaries_of_rangeCount [of plainEnv 1 unitRange 9 "workloadOf 0 1 10 [50, 3, 500]"]
  have a: "length (gapBoundaries unitRange 9) = 10
        \<and> hd (gapBoundaries unitRange 9) = range_begin unitRange
        \<and> last (gapBoundaries unitRange 9) = range_end unitRange"
    by simp
  from gap_boundaries_of_rangeCount [of plainEnv 1 unitRange 0 "workloadOf 0 1 10 [50, 3, 500]"]
  have b: "verifyRangeGapRest plainEnv 1 unitRange 0 (workloadOf 0 1 10 [50, 3, 500])
       = (Thrown internal_error, workloadOf 0 1 10 [50, 3, 500])"
    by simp
  have one: "(1::int) \<le> 9" by simp
  from one g a b show ?thesis by blast
qed

text \<open>
  The claim as stated fails in an execution where \<open>randomExp(3, 6)\<close> returns 8:
  \<open>rangeCount\<close> is 9, the \<open>ASSERT\<close> holds, the first piece is the one left out, the eight
  others are blobbified, and the scenario returns.
\<close>

theorem gap_rangeCount_nine:
  "fst (randomExp gapEnv 3 6 [8, 0]) + 1 = 9
   \<and> fst (verifyRangeGapUnit gapEnv 1 unitRange ((workloadOf 0 1 10 [50, 3, 500])\<lparr>sim := [8, 0]\<rparr>))
       = Returned ()
   \<and> blobbified (history (snd (verifyRangeGapUnit gapEnv 1 unitRange
         ((workloadOf 0 1 10 [50, 3, 500])\<lparr>sim := [8, 0]\<rparr>))))
       = [KeyRangeRef ''U_000000010000'' ''U_000000010001'',
          KeyRangeRef ''U_000000010001'' ''U_000000010002'',
          KeyRangeRef ''U_000000010002'' ''U_000000010003'',
          KeyRangeRef ''U_000000010003'' ''U_000000010004'',
          KeyRangeRef ''U_000000010004'' ''U_000000010005'',
          KeyRangeRef ''U_000000010005'' ''U_000000010006'',
          KeyRangeRef ''U_000000010006'' ''U_000000010007'',
          KeyRangeRef ''U_000000010007'' (strinc ''U_00000001'')]"
  by (simp add: verifyRangeGapUnit_def verifyRangeGapRest_def gapBoundaries_9 gapLoop.simps
      run_simps gapEnv_def unitRange_def workloadOf_eq)

text \<open>
  Claim C1, on the code. A run of BLOBBIFY_IDEMPOTENT that passes every \<open>ASSERT\<close>: after the
  forced purge of the outer range and the eight misaligned unblobbify calls, the last two
  calls (lines 557 and 560) are \<open>blobbifyRange\<close> on the inner range; the scenario never
  calls \<open>unblobbifyRange\<close> on it.
\<close>

theorem blobbifyIdempotent_ends_with_blobbify:
  "fst (blobbifyIdempotentUnit idempotentEnv 1 unitRange
          ((workloadOf 0 1 10 [50, 3, 500])\<lparr>sim := [0]\<rparr>)) = Returned ()
   \<and> map ev_call (drop 18 (history (snd (blobbifyIdempotentUnit idempotentEnv 1 unitRange
          ((workloadOf 0 1 10 [50, 3, 500])\<lparr>sim := [0]\<rparr>)))))
       = [PurgeBlobGranules unitRange 1 None True,
          WaitPurgeGranulesComplete ''purge'',
          UnblobbifyRange unitRange,
          UnblobbifyRange (KeyRangeRef (range_begin unitRange) (range_end unitActive)),
          UnblobbifyRange (KeyRangeRef (range_begin unitActive) (range_end unitRange)),
          UnblobbifyRange (KeyRangeRef (range_begin unitActive) ''U_00000001AF''),
          UnblobbifyRange (KeyRangeRef ''U_00000001AF'' (range_end unitActive)),
          UnblobbifyRange (KeyRangeRef (range_begin unitActive) ''U_00000001AF''),
          UnblobbifyRange (KeyRangeRef ''U_00000001AF'' (range_end unitActive)),
          UnblobbifyRange (KeyRangeRef ''U_00000001AF'' ''U_00000001AG''),
          BlobbifyRange unitActive,
          BlobbifyRange unitActive]
   \<and> UnblobbifyRange unitActive
       \<notin> set (map ev_call (history (snd (blobbifyIdempotentUnit idempotentEnv 1 unitRange
          ((workloadOf 0 1 10 [50, 3, 500])\<lparr>sim := [0]\<rparr>)))))"
  by (simp add: blobbifyIdempotentUnit_def run_simps idempotentEnv_def unitRange_def
      unitActive_def workloadOf_eq)

text \<open>
  Claim C2, on the code. A run of RANGES_MISALIGNED against a database that keeps the range
  active: both purges of the sub-range (lines 427 and 437) are issued with \<open>force = false\<close>,
  and the \<open>ASSERT\<close> after the second one fails.
\<close>

theorem rangesMisaligned_second_purge_not_forced:
  "fst (rangesMisalignedUnit misalignedEnv 1 unitRange (workloadOf 0 1 10 [50, 3, 500]))
     = Thrown internal_error
   \<and> map ev_call (history (snd (rangesMisalignedUnit misalignedEnv 1 unitRange
        (workloadOf 0 1 10 [50, 3, 500]))))
     = [BlobbifyRange unitRange,
        ListBlobbifiedRanges unitRange 1000000,
        GetBlobGranuleRanges unitRange 1000000,
        PurgeBlobGranules unitActive 1 None False,
        WaitPurgeGranulesComplete ''purge'',
        VerifyBlobRange unitActive None,
        VerifyBlobRange unitRange None,
        PurgeBlobGranules unitActive 1 None False,
        WaitPurgeGranulesComplete ''purge'',
        VerifyBlobRange unitActive None]"
  by (simp add: rangesMisalignedUnit_def run_simps misalignedEnv_def unitRange_def
      unitActive_def workloadOf_eq)

text \<open>Whatever the environment answers, RANGES_MISALIGNED never issues a forced purge.\<close>

lemma purgeNotForced_simps [simp]:
  "purgeNotForced (Event (PurgeBlobGranules r v t f) rp act) = (\<not> f)"
  "purgeNotForced (Event (BlobbifyRange r) rp act)"
  "purgeNotForced (Event (UnblobbifyRange r) rp act)"
  "purgeNotForced (Event (WaitPurgeGranulesComplete k) rp act)"
  "purgeNotForced (Event (VerifyBlobRange r vo) rp act)"
  "purgeNotForced (Event (ListBlobbifiedRanges r l) rp act)"
  "purgeNotForced (Event (GetBlobGranuleRanges r l) rp act)"
  "purgeNotForced (Event (OnError e) rp act)"
  by (simp_all add: purgeNotForced_def)

lemma rangesMisaligned_never_forces: "emits purgeNotForced (rangesMisalignedUnit cx n krange)"
  unfolding rangesMisalignedUnit_def Let_def listBlobbifiedRangesA_def getBlobGranuleRangesA_def
    setRange_def blobbifyRangeA_def unblobbifyRangeA_def isRangeActive_def purgeBlobGranulesA_def
    waitPurgeGranulesCompleteA_def
  by (intro emits_intros emits_retryLoop emits_dbCall) simp_all


end
